theory Spec2Isabelle
  imports Main "HOL-Library.AList"
begin

section \<open>JavaScript values\<close>

text \<open>
  The TypeScript sources run as JavaScript, and two of the modelled functions
  (\<open>mapApiErrorToUserError\<close> and the \<open>catch\<close> blocks of \<open>apiRequest\<close>) receive values of
  type \<open>unknown\<close>. Values are therefore modelled as they exist at run time:

  \<^item> numbers are integers (the timestamps, lifetimes and protocol codes of this program);
    fractions, \<open>NaN\<close> and the infinities are not represented;
  \<^item> a string is a list of 8-bit code units; a code unit above \<open>0xFF\<close> is not represented;
  \<^item> an object is its class together with its own properties in insertion order;
    there are no function values, so a property is never callable;
  \<^item> the classes are plain objects and the built-in error classes the sources test
    for or receive; of the prototype chain only \<open>Error.prototype.message\<close> and
    \<open>Error.prototype.name\<close> are represented.

  A thrown exception is the \<open>Inl\<close> of a sum whose left type is the thrown value.
\<close>

datatype jsclass = PlainObject | ErrorObject | TypeErrorObject | SyntaxErrorObject

datatype jsval =
    JUndefined
  | JNull
  | JBool bool
  | JNum int
  | JStr string
  | JArr "jsval list"
  | JObj jsclass "(string \<times> jsval) list"

fun class_name :: "jsclass \<Rightarrow> string" where
  "class_name PlainObject = ''Object''"
| "class_name ErrorObject = ''Error''"
| "class_name TypeErrorObject = ''TypeError''"
| "class_name SyntaxErrorObject = ''SyntaxError''"

text \<open>\<open>new Error(msg)\<close>, \<open>new TypeError(msg)\<close>: the constructor creates the own property \<open>message\<close>.\<close>

definition new_Error :: "string \<Rightarrow> jsval" where
  "new_Error msg = JObj ErrorObject [(''message'', JStr msg)]"

definition new_TypeError :: "string \<Rightarrow> jsval" where
  "new_TypeError msg = JObj TypeErrorObject [(''message'', JStr msg)]"

text \<open>Truthiness, as \<open>!v\<close>, \<open>v || w\<close> and \<open>if (v)\<close> test it.\<close>

fun truthy :: "jsval \<Rightarrow> bool" where
  "truthy JUndefined = False"
| "truthy JNull = False"
| "truthy (JBool b) = b"
| "truthy (JNum n) = (n \<noteq> 0)"
| "truthy (JStr s) = (s \<noteq> [])"
| "truthy (JArr _) = True"
| "truthy (JObj _ _) = True"

definition js_or :: "jsval \<Rightarrow> jsval \<Rightarrow> jsval" where
  "js_or v w = (if truthy v then v else w)"

fun typeof :: "jsval \<Rightarrow> string" where
  "typeof JUndefined = ''undefined''"
| "typeof JNull = ''object''"
| "typeof (JBool _) = ''boolean''"
| "typeof (JNum _) = ''number''"
| "typeof (JStr _) = ''string''"
| "typeof (JArr _) = ''object''"
| "typeof (JObj _ _) = ''object''"

text \<open>The data properties an instance inherits from its prototype.\<close>

fun proto_prop :: "jsclass \<Rightarrow> string \<Rightarrow> jsval option" where
  "proto_prop PlainObject k = None"
| "proto_prop c k =
     (if k = ''message'' then Some (JStr [])
      else if k = ''name'' then Some (JStr (class_name c))
      else None)"

text \<open>
  \<open>v.k\<close> for a value that is neither \<open>undefined\<close> nor \<open>null\<close>: an own property, else an
  inherited one, else \<open>undefined\<close>. Primitives and arrays have none of the keys the
  sources read.
\<close>

fun js_prop :: "jsval \<Rightarrow> string \<Rightarrow> jsval" where
  "js_prop (JObj c fs) k =
     (case map_of fs k of
        Some v \<Rightarrow> v
      | None \<Rightarrow> (case proto_prop c k of Some v \<Rightarrow> v | None \<Rightarrow> JUndefined))"
| "js_prop _ k = JUndefined"

text \<open>\<open>v.k\<close> in general: reading a property of \<open>undefined\<close> or \<open>null\<close> throws a TypeError.\<close>

definition get_member :: "jsval \<Rightarrow> string \<Rightarrow> jsval + jsval" where
  "get_member v k =
     (if v = JUndefined \<or> v = JNull
      then Inl (new_TypeError ''Cannot read properties of undefined or null'')
      else Inr (js_prop v k))"

text \<open>\<open>v?.k\<close>: \<open>undefined\<close> when \<open>v\<close> is \<open>undefined\<close> or \<open>null\<close>.\<close>

definition optional_member :: "jsval \<Rightarrow> string \<Rightarrow> jsval" where
  "optional_member v k = (if v = JUndefined \<or> v = JNull then JUndefined else js_prop v k)"

text \<open>\<open>k in v\<close> for an object \<open>v\<close>: own or inherited.\<close>

fun has_property :: "jsval \<Rightarrow> string \<Rightarrow> bool" where
  "has_property (JObj c fs) k = (map_of fs k \<noteq> None \<or> proto_prop c k \<noteq> None)"
| "has_property _ k = False"

fun instanceof_TypeError :: "jsval \<Rightarrow> bool" where
  "instanceof_TypeError (JObj TypeErrorObject _) = True"
| "instanceof_TypeError _ = False"

subsection \<open>String methods\<close>

fun starts_with :: "string \<Rightarrow> string \<Rightarrow> bool" where
  "starts_with _ [] = True"
| "starts_with [] (_ # _) = False"
| "starts_with (x # xs) (y # ys) = (x = y \<and> starts_with xs ys)"

text \<open>\<open>s.includes(sub)\<close> on strings: \<open>sub\<close> occurs in \<open>s\<close> as a contiguous substring.\<close>

fun str_includes :: "string \<Rightarrow> string \<Rightarrow> bool" where
  "str_includes [] sub = (sub = [])"
| "str_includes (c # cs) sub = (starts_with (c # cs) sub \<or> str_includes cs sub)"

definition toLower_char :: "char \<Rightarrow> char" where
  "toLower_char c =
     (let n = (of_char c :: nat)
      in if (65 \<le> n \<and> n \<le> 90) \<or> (192 \<le> n \<and> n \<le> 222 \<and> n \<noteq> 215)
         then char_of (n + 32) else c)"

definition toLowerCase :: "string \<Rightarrow> string" where
  "toLowerCase s = map toLower_char s"

text \<open>
  The method calls \<open>v.toLowerCase()\<close> and \<open>v.includes(sub)\<close> on a value of unknown
  type. Only a string has \<open>toLowerCase\<close>; strings and arrays have \<open>includes\<close>; on any other
  receiver the call throws a TypeError.
\<close>

fun call_toLowerCase :: "jsval \<Rightarrow> jsval + string" where
  "call_toLowerCase (JStr s) = Inr (toLowerCase s)"
| "call_toLowerCase _ = Inl (new_TypeError ''toLowerCase is not a function'')"

fun call_includes :: "jsval \<Rightarrow> string \<Rightarrow> jsval + bool" where
  "call_includes (JStr s) sub = Inr (str_includes s sub)"
| "call_includes (JArr xs) sub = Inr (JStr sub \<in> set xs)"
| "call_includes _ sub = Inl (new_TypeError ''includes is not a function'')"

subsection \<open>Conversion to strings\<close>

definition digit_char :: "nat \<Rightarrow> char" where
  "digit_char d = ''0123456789'' ! d"

text \<open>The decimal digits of a natural number, most significant first.\<close>

fun show_nat :: "nat \<Rightarrow> string" where
  "show_nat n = (if n < 10 then [digit_char n] else show_nat (n div 10) @ [digit_char (n mod 10)])"

declare show_nat.simps [simp del]

definition show_int :: "int \<Rightarrow> string" where
  "show_int i = (if i < 0 then CHR ''-'' # show_nat (nat (- i)) else show_nat (nat i))"

fun join_with :: "string \<Rightarrow> string list \<Rightarrow> string" where
  "join_with sep [] = []"
| "join_with sep [x] = x"
| "join_with sep (x # y # ys) = x @ sep @ join_with sep (y # ys)"

text \<open>The results of a list of steps in order: the first exception ends it.\<close>

fun sequence :: "('e + 'a) list \<Rightarrow> 'e + 'a list" where
  "sequence [] = Inr []"
| "sequence (Inl e # rs) = Inl e"
| "sequence (Inr x # rs) = (case sequence rs of Inl e \<Rightarrow> Inl e | Inr xs \<Rightarrow> Inr (x # xs))"

text \<open>
  \<open>ToString(v)\<close>, which is also what the method call \<open>v.toString()\<close> returns on a value
  other than \<open>undefined\<close> and \<open>null\<close>: an array joins its elements with commas (\<open>undefined\<close>
  and \<open>null\<close> elements as the empty string), a plain object is \<open>[object Object]\<close>, an
  error instance is its name and message. An object with an own property \<open>toString\<close>
  shadows the method with something that is not callable, and the call throws.
\<close>

fun js_ToString :: "jsval \<Rightarrow> jsval + string" where
  "js_ToString JUndefined = Inr ''undefined''"
| "js_ToString JNull = Inr ''null''"
| "js_ToString (JBool b) = Inr (if b then ''true'' else ''false'')"
| "js_ToString (JNum n) = Inr (show_int n)"
| "js_ToString (JStr s) = Inr s"
| "js_ToString (JArr xs) =
     (case sequence (map (\<lambda>x. if x = JUndefined \<or> x = JNull then Inr [] else js_ToString x) xs) of
        Inl thrown \<Rightarrow> Inl thrown
      | Inr parts \<Rightarrow> Inr (join_with '','' parts))"
| "js_ToString (JObj c fs) =
     (if map_of fs ''toString'' \<noteq> None
      then Inl (new_TypeError ''toString is not a function'')
      else if c = PlainObject then Inr ''[object Object]''
      else
        (let own = map (\<lambda>(k, v). (k, js_ToString v)) fs;
             name = (case map_of own ''name'' of
                       None \<Rightarrow> Inr (class_name c)
                     | Some r \<Rightarrow> if map_of fs ''name'' = Some JUndefined then Inr ''Error'' else r);
             msg = (case map_of own ''message'' of
                       None \<Rightarrow> Inr []
                     | Some r \<Rightarrow> if map_of fs ''message'' = Some JUndefined then Inr [] else r)
         in case name of
              Inl thrown \<Rightarrow> Inl thrown
            | Inr n \<Rightarrow>
                (case msg of
                   Inl thrown \<Rightarrow> Inl thrown
                 | Inr m \<Rightarrow> Inr (if n = [] then m else if m = [] then n else n @ '': '' @ m))))"

subsection \<open>\<open>JSON.stringify\<close>\<close>

definition hex_digit :: "nat \<Rightarrow> char" where
  "hex_digit d = ''0123456789abcdef'' ! d"

text \<open>
  The escapes of a JSON string: the quotation mark, the backslash, and the control
  characters below \<open>0x20\<close> (five with a short form, the others as \<open>\u00XX\<close>).
\<close>

definition json_escape_char :: "char \<Rightarrow> string" where
  "json_escape_char c =
     (let n = (of_char c :: nat)
      in if n = 34 then [CHR 0x5C, CHR 0x22]
         else if n = 92 then [CHR 0x5C, CHR 0x5C]
         else if n = 8 then [CHR 0x5C, CHR ''b'']
         else if n = 12 then [CHR 0x5C, CHR ''f'']
         else if n = 10 then [CHR 0x5C, CHR ''n'']
         else if n = 13 then [CHR 0x5C, CHR ''r'']
         else if n = 9 then [CHR 0x5C, CHR ''t'']
         else if n < 32
         then [CHR 0x5C, CHR ''u'', CHR ''0'', CHR ''0'', hex_digit (n div 16), hex_digit (n mod 16)]
         else [c])"

definition json_quote :: "string \<Rightarrow> string" where
  "json_quote s = CHR 0x22 # concat (map json_escape_char s) @ [CHR 0x22]"

text \<open>
  Of an error instance the properties \<open>message\<close> and \<open>stack\<close>, which the constructor
  creates, are not enumerable; every other own property is.
\<close>

definition enumerable :: "jsclass \<Rightarrow> string \<Rightarrow> bool" where
  "enumerable c k \<longleftrightarrow> c = PlainObject \<or> (k \<noteq> ''message'' \<and> k \<noteq> ''stack'')"

text \<open>
  \<open>JSON.stringify(v)\<close>: \<open>None\<close> is the result \<open>undefined\<close>. In an object a property whose
  value is \<open>undefined\<close> is left out; in an array it is written \<open>null\<close>.
\<close>

fun JSON_stringify :: "jsval \<Rightarrow> string option" where
  "JSON_stringify JUndefined = None"
| "JSON_stringify JNull = Some ''null''"
| "JSON_stringify (JBool b) = Some (if b then ''true'' else ''false'')"
| "JSON_stringify (JNum n) = Some (show_int n)"
| "JSON_stringify (JStr s) = Some (json_quote s)"
| "JSON_stringify (JArr xs) =
     Some (''['' @
           join_with '','' (map (\<lambda>x. case JSON_stringify x of None \<Rightarrow> ''null'' | Some t \<Rightarrow> t) xs) @
           '']'')"
| "JSON_stringify (JObj c fs) =
     Some (''{'' @
           join_with '',''
             (concat (map (\<lambda>(k, v).
                if enumerable c k
                then (case JSON_stringify v of None \<Rightarrow> [] | Some t \<Rightarrow> [json_quote k @ '':'' @ t])
                else []) fs)) @
           ''}'')"

text \<open>\<open>localStorage.setItem(key, String(v))\<close> semantics for the result of \<open>JSON.stringify\<close>.\<close>

definition stringified :: "jsval \<Rightarrow> string" where
  "stringified v = (case JSON_stringify v of None \<Rightarrow> ''undefined'' | Some s \<Rightarrow> s)"

subsection \<open>\<open>JSON.parse\<close>\<close>

text \<open>
  A recursive-descent parser of the JSON grammar. It fails with \<open>SyntaxErr\<close> where
  \<open>JSON.parse\<close> throws a SyntaxError. Two further outcomes mark the edge of the model of
  values: \<open>Unrepresented\<close> for a number with a fraction or an exponent and for an escape
  \<open>\uXXXX\<close> above \<open>0xFF\<close> (nothing is said about such a text), and \<open>OutOfFuel\<close> for the
  recursion bound on nested values.
\<close>

datatype failure = SyntaxErr | Unrepresented | OutOfFuel

type_synonym 'a parsed = "failure + 'a \<times> string"

definition is_json_ws :: "char \<Rightarrow> bool" where
  "is_json_ws c \<longleftrightarrow> (of_char c :: nat) \<in> {9, 10, 13, 32}"

definition skip_ws :: "string \<Rightarrow> string" where
  "skip_ws s = dropWhile is_json_ws s"

definition is_digit :: "char \<Rightarrow> bool" where
  "is_digit c \<longleftrightarrow> 48 \<le> (of_char c :: nat) \<and> (of_char c :: nat) \<le> 57"

definition hex_value :: "char \<Rightarrow> nat option" where
  "hex_value c =
     (let n = (of_char c :: nat)
      in if 48 \<le> n \<and> n \<le> 57 then Some (n - 48)
         else if 97 \<le> n \<and> n \<le> 102 then Some (n - 87)
         else if 65 \<le> n \<and> n \<le> 70 then Some (n - 55)
         else None)"

text \<open>The character a two-character escape stands for.\<close>

definition unescape :: "char \<Rightarrow> char option" where
  "unescape e =
     (if e = CHR 0x22 then Some (CHR 0x22)
      else if e = CHR 0x5C then Some (CHR 0x5C)
      else if e = CHR ''/'' then Some (CHR ''/'')
      else if e = CHR ''b'' then Some (CHR 0x08)
      else if e = CHR ''f'' then Some (CHR 0x0C)
      else if e = CHR ''n'' then Some (CHR 0x0A)
      else if e = CHR ''r'' then Some (CHR 0x0D)
      else if e = CHR ''t'' then Some (CHR 0x09)
      else None)"

definition cons_char :: "char \<Rightarrow> string parsed \<Rightarrow> string parsed" where
  "cons_char c r = (case r of Inl f \<Rightarrow> Inl f | Inr (s, rest) \<Rightarrow> Inr (c # s, rest))"

text \<open>The characters of a string after its opening quotation mark, up to the closing one.\<close>

fun parse_string_body :: "string \<Rightarrow> string parsed" where
  "parse_string_body [] = Inl SyntaxErr"
| "parse_string_body (c # cs) =
     (if c = CHR 0x22 then Inr ([], cs)
      else if c = CHR 0x5C then
        (case cs of
           [] \<Rightarrow> Inl SyntaxErr
         | e # rest \<Rightarrow>
             if e = CHR ''u'' then
               (case rest of
                  h1 # h2 # h3 # h4 # rest' \<Rightarrow>
                    (case hex_value h1 of None \<Rightarrow> Inl SyntaxErr | Some d1 \<Rightarrow>
                     case hex_value h2 of None \<Rightarrow> Inl SyntaxErr | Some d2 \<Rightarrow>
                     case hex_value h3 of None \<Rightarrow> Inl SyntaxErr | Some d3 \<Rightarrow>
                     case hex_value h4 of None \<Rightarrow> Inl SyntaxErr | Some d4 \<Rightarrow>
                       if d1 = 0 \<and> d2 = 0
                       then cons_char (char_of (16 * d3 + d4)) (parse_string_body rest')
                       else Inl Unrepresented)
                | _ \<Rightarrow> Inl SyntaxErr)
             else (case unescape e of
                     None \<Rightarrow> Inl SyntaxErr
                   | Some ch \<Rightarrow> cons_char ch (parse_string_body rest)))
      else if (of_char c :: nat) < 32 then Inl SyntaxErr
      else cons_char c (parse_string_body cs))"

definition digit_value :: "char \<Rightarrow> nat" where
  "digit_value c = of_char c - 48"

definition read_nat :: "string \<Rightarrow> nat" where
  "read_nat ds = foldl (\<lambda>a c. 10 * a + digit_value c) 0 ds"

text \<open>
  A number: an optional minus sign, then \<open>0\<close> or digits that do not start with \<open>0\<close>.
  A fraction or an exponent after them is outside the model.
\<close>

definition parse_unsigned :: "bool \<Rightarrow> string \<Rightarrow> jsval parsed" where
  "parse_unsigned negative s =
     (let ds = takeWhile is_digit s; rest = dropWhile is_digit s
      in case ds of
           [] \<Rightarrow> Inl SyntaxErr
         | d # ds' \<Rightarrow>
             if d = CHR ''0'' \<and> ds' \<noteq> [] then Inl SyntaxErr
             else if (case rest of [] \<Rightarrow> False
                      | c # _ \<Rightarrow> c = CHR ''.'' \<or> c = CHR ''e'' \<or> c = CHR ''E'')
             then Inl Unrepresented
             else Inr (JNum (if negative then - int (read_nat ds) else int (read_nat ds)), rest))"

definition parse_number :: "string \<Rightarrow> jsval parsed" where
  "parse_number s =
     (case s of
        [] \<Rightarrow> Inl SyntaxErr
      | c # cs \<Rightarrow> if c = CHR ''-'' then parse_unsigned True cs else parse_unsigned False s)"

text \<open>
  Values, the elements of an array after \<open>[\<close> or a comma, and the members of an object
  after \<open>{\<close> or a comma. A member whose key was seen before replaces the earlier
  value in place.
\<close>

fun parse_value :: "nat \<Rightarrow> string \<Rightarrow> jsval parsed"
  and parse_elements :: "nat \<Rightarrow> jsval list \<Rightarrow> string \<Rightarrow> jsval parsed"
  and parse_members :: "nat \<Rightarrow> (string \<times> jsval) list \<Rightarrow> string \<Rightarrow> jsval parsed"
where
  "parse_value 0 s = Inl OutOfFuel"
| "parse_value (Suc n) s =
     (case skip_ws s of
        [] \<Rightarrow> Inl SyntaxErr
      | c # cs \<Rightarrow>
          if c = CHR 0x22 then
            (case parse_string_body cs of
               Inl f \<Rightarrow> Inl f
             | Inr (str, rest) \<Rightarrow> Inr (JStr str, rest))
          else if c = CHR ''['' then
            (case skip_ws cs of
               [] \<Rightarrow> Inl SyntaxErr
             | d # ds \<Rightarrow> if d = CHR '']'' then Inr (JArr [], ds) else parse_elements n [] cs)
          else if c = CHR ''{'' then
            (case skip_ws cs of
               [] \<Rightarrow> Inl SyntaxErr
             | d # ds \<Rightarrow>
                 if d = CHR ''}'' then Inr (JObj PlainObject [], ds) else parse_members n [] cs)
          else if c = CHR ''-'' \<or> is_digit c then parse_number (c # cs)
          else if starts_with (c # cs) ''true'' then Inr (JBool True, drop 4 (c # cs))
          else if starts_with (c # cs) ''false'' then Inr (JBool False, drop 5 (c # cs))
          else if starts_with (c # cs) ''null'' then Inr (JNull, drop 4 (c # cs))
          else Inl SyntaxErr)"
| "parse_elements 0 acc s = Inl OutOfFuel"
| "parse_elements (Suc n) acc s =
     (case parse_value n s of
        Inl f \<Rightarrow> Inl f
      | Inr (v, rest) \<Rightarrow>
          (case skip_ws rest of
             [] \<Rightarrow> Inl SyntaxErr
           | c # cs \<Rightarrow>
               if c = CHR '','' then parse_elements n (acc @ [v]) cs
               else if c = CHR '']'' then Inr (JArr (acc @ [v]), cs)
               else Inl SyntaxErr))"
| "parse_members 0 acc s = Inl OutOfFuel"
| "parse_members (Suc n) acc s =
     (case skip_ws s of
        [] \<Rightarrow> Inl SyntaxErr
      | q # cs \<Rightarrow>
          if q \<noteq> CHR 0x22 then Inl SyntaxErr
          else
            (case parse_string_body cs of
               Inl f \<Rightarrow> Inl f
             | Inr (key, rest) \<Rightarrow>
                 (case skip_ws rest of
                    [] \<Rightarrow> Inl SyntaxErr
                  | colon # cs1 \<Rightarrow>
                      if colon \<noteq> CHR '':'' then Inl SyntaxErr
                      else
                        (case parse_value n cs1 of
                           Inl f \<Rightarrow> Inl f
                         | Inr (v, rest1) \<Rightarrow>
                             (case skip_ws rest1 of
                                [] \<Rightarrow> Inl SyntaxErr
                              | c # cs2 \<Rightarrow>
                                  if c = CHR '','' then parse_members n (AList.update key v acc) cs2
                                  else if c = CHR ''}''
                                  then Inr (JObj PlainObject (AList.update key v acc), cs2)
                                  else Inl SyntaxErr)))))"

text \<open>
  \<open>JSON.parse(s)\<close>: one value, then only white space. Every recursive call of the
  parser follows at most one other call on the same input, so twice the length of
  the text bounds the depth.
\<close>

definition JSON_parse :: "string \<Rightarrow> failure + jsval" where
  "JSON_parse s =
     (case parse_value (2 * length s + 2) s of
        Inl f \<Rightarrow> Inl f
      | Inr (v, rest) \<Rightarrow> if skip_ws rest = [] then Inr v else Inl SyntaxErr)"

section \<open>Types and constants (src/types/tiktok.ts, src/utils/constants.ts)\<close>

datatype ErrorType =
    NETWORK_ERROR
  | OAUTH_INVALID_CREDENTIALS
  | OAUTH_EXPIRED_TOKEN
  | OAUTH_MISSING_PERMISSIONS
  | OAUTH_GEO_RESTRICTION
  | RATE_LIMIT
  | MUSIC_INVALID_ID
  | MUSIC_NOT_AVAILABLE
  | UNKNOWN_ERROR

text \<open>
  \<open>UserFriendlyError\<close>. The field \<open>type\<close> is called \<open>etype\<close> here. The field \<open>message\<close> is a
  value: the generic branch of the classifier copies it from the raw error unchecked.
\<close>

record UserFriendlyError =
  etype :: ErrorType
  title :: string
  message :: jsval
  action :: string
  canRetry :: bool

definition INVALID_CLIENT :: string where "INVALID_CLIENT = ''invalid_client''"
definition INVALID_GRANT :: string where "INVALID_GRANT = ''invalid_grant''"
definition EXPIRED_TOKEN :: string where "EXPIRED_TOKEN = ''expired_token''"
definition UNAUTHORIZED_CLIENT :: string where "UNAUTHORIZED_CLIENT = ''unauthorized_client''"
definition INSUFFICIENT_PERMISSIONS :: string where
  "INSUFFICIENT_PERMISSIONS = ''insufficient_permissions''"
definition GEO_RESTRICTED :: string where "GEO_RESTRICTED = ''geo_restricted''"
definition RATE_LIMIT_EXCEEDED :: string where "RATE_LIMIT_EXCEEDED = ''rate_limit_exceeded''"
definition INVALID_MUSIC_ID :: string where "INVALID_MUSIC_ID = ''invalid_music_id''"
definition MUSIC_NOT_AVAILABLE_CODE :: string where
  "MUSIC_NOT_AVAILABLE_CODE = ''music_not_available''"

section \<open>The error classifier (src/utils/errorMessages.ts)\<close>

text \<open>The type guard \<open>isApiError\<close>: it tests that both keys are present, not what they hold.\<close>

definition isApiError :: "jsval \<Rightarrow> bool" where
  "isApiError error \<longleftrightarrow>
     typeof error = ''object'' \<and> error \<noteq> JNull \<and>
     has_property error ''code'' \<and> has_property error ''message''"

definition networkError :: UserFriendlyError where
  "networkError =
     \<lparr> etype = NETWORK_ERROR,
       title = ''Connection Error'',
       message = JStr ''Unable to connect to TikTok servers. Please check your internet connection and try again.'',
       action = ''Retry'',
       canRetry = True \<rparr>"

definition invalidCredentials :: UserFriendlyError where
  "invalidCredentials =
     \<lparr> etype = OAUTH_INVALID_CREDENTIALS,
       title = ''Invalid Credentials'',
       message = JStr ''Your TikTok App credentials are invalid. Please check your App ID and Secret in the .env file.'',
       action = ''Update credentials and reconnect'',
       canRetry = False \<rparr>"

definition expiredToken :: UserFriendlyError where
  "expiredToken =
     \<lparr> etype = OAUTH_EXPIRED_TOKEN,
       title = ''Session Expired'',
       message = JStr ''Your TikTok session has expired. Please reconnect your account to continue.'',
       action = ''Reconnect Account'',
       canRetry = True \<rparr>"

definition missingPermissions :: UserFriendlyError where
  \<open>missingPermissions =
     \<lparr> etype = OAUTH_MISSING_PERMISSIONS,
       title = ''Missing Permissions'',
       message = JStr ''Your app doesn't have the required permissions. Please ensure "ad_management" and "video_management" scopes are enabled.'',
       action = ''Check app permissions in TikTok Developer Portal'',
       canRetry = False \<rparr>\<close>

definition geoRestriction :: UserFriendlyError where
  "geoRestriction =
     \<lparr> etype = OAUTH_GEO_RESTRICTION,
       title = ''Region Restricted'',
       message = JStr ''TikTok Ads API is not available in your region. This service may be restricted to certain countries.'',
       action = ''Contact TikTok support for availability'',
       canRetry = False \<rparr>"

definition rateLimit :: UserFriendlyError where
  "rateLimit =
     \<lparr> etype = RATE_LIMIT,
       title = ''Too Many Requests'',
       message = JStr ''You've made too many requests. Please wait a moment before trying again.'',
       action = ''Wait 60 seconds and retry'',
       canRetry = True \<rparr>"

definition musicInvalidId :: UserFriendlyError where
  "musicInvalidId =
     \<lparr> etype = MUSIC_INVALID_ID,
       title = ''Invalid Music ID'',
       message = JStr ''The music ID you entered doesn't exist in TikTok's library. Please check the ID and try again.'',
       action = ''Verify music ID'',
       canRetry = True \<rparr>"

definition musicNotAvailable :: UserFriendlyError where
  "musicNotAvailable =
     \<lparr> etype = MUSIC_NOT_AVAILABLE,
       title = ''Music Not Available'',
       message = JStr ''This music is not available for use in ads. Please select a different track.'',
       action = ''Choose different music'',
       canRetry = True \<rparr>"

text \<open>The generic API error: the message is the first truthy one of three.\<close>

definition genericApiError :: "jsval \<Rightarrow> UserFriendlyError" where
  "genericApiError error =
     \<lparr> etype = UNKNOWN_ERROR,
       title = ''Something Went Wrong'',
       message =
         js_or (optional_member (js_prop error ''data'') ''description'')
           (js_or (js_prop error ''message'')
              (JStr ''An unexpected error occurred. Please try again.'')),
       action = ''Retry'',
       canRetry = True \<rparr>"

definition unknownError :: UserFriendlyError where
  "unknownError =
     \<lparr> etype = UNKNOWN_ERROR,
       title = ''Unexpected Error'',
       message = JStr ''An unexpected error occurred. Please try again or contact support if the issue persists.'',
       action = ''Retry'',
       canRetry = True \<rparr>"

text \<open>
  The branch of \<open>mapApiErrorToUserError\<close> under \<open>if (isApiError(error))\<close>, in the order of
  the source: \<open>errorCode\<close> and \<open>errorMessage\<close> are computed first (the latter calls
  \<open>toLowerCase\<close> on whatever \<open>error.message\<close> holds), then the rules are tried one by one.
\<close>

definition classifyApiError :: "jsval \<Rightarrow> jsval + UserFriendlyError" where
  "classifyApiError error =
     (let errorCode = optional_member (js_prop error ''data'') ''error_code''
      in case call_toLowerCase (js_prop error ''message'') of
           Inl thrown \<Rightarrow> Inl thrown
         | Inr errorMessage \<Rightarrow>
             if js_prop error ''code'' = JStr INVALID_CLIENT \<or> str_includes errorMessage ''invalid client''
             then Inr invalidCredentials
             else if js_prop error ''code'' = JStr INVALID_GRANT \<or> errorCode = JStr EXPIRED_TOKEN
             then Inr expiredToken
             else if js_prop error ''code'' = JStr UNAUTHORIZED_CLIENT \<or>
                     errorCode = JStr INSUFFICIENT_PERMISSIONS
             then Inr missingPermissions
             else if errorCode = JStr GEO_RESTRICTED
             then Inr geoRestriction
             else (case call_includes (js_prop error ''message'') ''geo'' of
                Inl thrown \<Rightarrow> Inl thrown
              | Inr True \<Rightarrow> Inr geoRestriction
              | Inr False \<Rightarrow>
                  if errorCode = JStr RATE_LIMIT_EXCEEDED \<or> str_includes errorMessage ''rate limit''
                  then Inr rateLimit
                  else if errorCode = JStr INVALID_MUSIC_ID \<or> str_includes errorMessage ''music''
                  then Inr musicInvalidId
                  else if errorCode = JStr MUSIC_NOT_AVAILABLE_CODE
                  then Inr musicNotAvailable
                  else Inr (genericApiError error)))"

text \<open>
  \<open>mapApiErrorToUserError\<close>. The first test is
  \<open>error instanceof TypeError && error.message.includes("fetch")\<close>: the method call is
  made only on a TypeError instance.
\<close>

definition mapApiErrorToUserError :: "jsval \<Rightarrow> jsval + UserFriendlyError" where
  "mapApiErrorToUserError error =
     (case (if instanceof_TypeError error
            then call_includes (js_prop error ''message'') ''fetch''
            else Inr False) of
        Inl thrown \<Rightarrow> Inl thrown
      | Inr True \<Rightarrow> Inr networkError
      | Inr False \<Rightarrow>
          if isApiError error then classifyApiError error
          else Inr unknownError)"

section \<open>The form validation engine (src/services/validation.ts)\<close>

text \<open>
  \<open>AdFormData\<close> and \<open>File\<close>. \<open>objective\<close>, \<open>cta\<close> and \<open>musicOption\<close> are string-literal unions
  in the type declaration and plain strings at run time (the function tests them for
  emptiness), so they are strings here. The optional fields are \<open>None\<close> when the
  property is \<open>undefined\<close> (or, for the file, \<open>null\<close>).
\<close>

record File =
  file_type :: string
  file_size :: int

record AdFormData =
  campaignName :: string
  objective :: string
  adText :: string
  cta :: string
  musicOption :: string
  musicId :: "string option"
  uploadedMusicFile :: "File option"

text \<open>
  The tables \<open>VALIDATION_RULES\<close> and \<open>VALIDATION_ERRORS\<close> of the constants module are
  parameters of the validator, since the repository holds two versions of that module.
  A message is a value: \<open>JUndefined\<close> where the table has no such entry. \<open>rule_musicId_pattern\<close>
  is \<open>None\<close> where the table has no \<open>musicId\<close> entry, else the test of the regular
  expression.
\<close>

record validation_rules =
  rule_campaignName_minLength :: nat
  rule_campaignName_maxLength :: nat
  rule_adText_maxLength :: nat
  rule_musicId_pattern :: "(string \<Rightarrow> bool) option"

record validation_errors =
  campaignName_required :: jsval
  campaignName_minLength :: jsval
  campaignName_maxLength :: jsval
  objective_required :: jsval
  adText_required :: jsval
  adText_maxLength :: jsval
  cta_required :: jsval
  musicOption_required :: jsval
  musicOption_invalidForObjective :: jsval
  musicId_required :: jsval
  musicId_invalid :: jsval
  uploadedMusicFile_required :: jsval
  uploadedMusicFile_invalidType :: jsval
  uploadedMusicFile_tooLarge :: jsval

text \<open>The regular expression \<open>/^[0-9]{10,20}$/\<close>, tested on the whole string.\<close>

definition musicId_pattern_test :: "string \<Rightarrow> bool" where
  "musicId_pattern_test s \<longleftrightarrow> 10 \<le> length s \<and> length s \<le> 20 \<and> list_all is_digit s"

text \<open>The tables as src/utils/constants.ts has them (the module the validator imports).\<close>

definition VALIDATION_RULES :: validation_rules where
  "VALIDATION_RULES =
     \<lparr> rule_campaignName_minLength = 3,
       rule_campaignName_maxLength = 100,
       rule_adText_maxLength = 100,
       rule_musicId_pattern = None \<rparr>"

definition VALIDATION_ERRORS :: validation_errors where
  "VALIDATION_ERRORS =
     \<lparr> campaignName_required = JStr ''Campaign name is required'',
       campaignName_minLength = JStr ''Campaign name must be at least 3 characters'',
       campaignName_maxLength = JUndefined,
       objective_required = JStr ''Please select a campaign objective'',
       adText_required = JStr ''Ad text is required'',
       adText_maxLength = JStr ''Max 100 characters'',
       cta_required = JStr ''Please select a call-to-action'',
       musicOption_required = JStr ''Please select a music option'',
       musicOption_invalidForObjective = JStr ''Music required for Conversions'',
       musicId_required = JStr ''Music ID is required'',
       musicId_invalid = JUndefined,
       uploadedMusicFile_required = JStr ''Please upload a music file'',
       uploadedMusicFile_invalidType = JUndefined,
       uploadedMusicFile_tooLarge = JUndefined \<rparr>"

text \<open>The tables of the second, longer version of the constants module.\<close>

definition VALIDATION_RULES_v2 :: validation_rules where
  "VALIDATION_RULES_v2 =
     \<lparr> rule_campaignName_minLength = 3,
       rule_campaignName_maxLength = 100,
       rule_adText_maxLength = 100,
       rule_musicId_pattern = Some musicId_pattern_test \<rparr>"

definition VALIDATION_ERRORS_v2 :: validation_errors where
  "VALIDATION_ERRORS_v2 =
     \<lparr> campaignName_required = JStr ''Campaign name is required'',
       campaignName_minLength = JStr ''Campaign name must be at least 3 characters'',
       campaignName_maxLength = JStr ''Campaign name must not exceed 100 characters'',
       objective_required = JStr ''Please select a campaign objective'',
       adText_required = JStr ''Ad text is required'',
       adText_maxLength = JStr ''Ad text must not exceed 100 characters'',
       cta_required = JStr ''Please select a call-to-action'',
       musicOption_required = JStr ''Please select a music option'',
       musicOption_invalidForObjective = JStr ''Music is required for Conversions campaigns'',
       musicId_required = JStr ''Music ID is required'',
       musicId_invalid = JStr ''Music ID must be a 10-20 digit number'',
       uploadedMusicFile_required = JStr ''Please upload a music file'',
       uploadedMusicFile_invalidType = JStr ''Please upload a valid audio file (MP3, WAV, or M4A)'',
       uploadedMusicFile_tooLarge = JStr ''File size must not exceed 10MB'' \<rparr>"

text \<open>
  \<open>String.prototype.trim\<close>: the white space and line terminators of JavaScript that fit
  in 8 bits are TAB, LF, VT, FF, CR, space and the no-break space.
\<close>

definition is_js_space :: "char \<Rightarrow> bool" where
  "is_js_space c \<longleftrightarrow> (of_char c :: nat) \<in> {9, 10, 11, 12, 13, 32, 160}"

definition trim :: "string \<Rightarrow> string" where
  "trim s = rev (dropWhile is_js_space (rev (dropWhile is_js_space s)))"

type_synonym FormErrors = "string \<rightharpoonup> jsval"

definition validTypes :: "string list" where
  "validTypes = [''audio/mpeg'', ''audio/wav'', ''audio/mp4'', ''audio/x-m4a'']"

definition maxSize :: int where
  "maxSize = 10 * 1024 * 1024"

text \<open>
  The block \<open>if (formData.musicOption === "existing") { ... }\<close>: \<open>formData.musicId.trim()\<close>
  is a method call on a property that may be \<open>undefined\<close>, and
  \<open>VALIDATION_RULES.musicId.pattern\<close> reads a property of a table entry that may be
  missing; both throw a TypeError then.
\<close>

definition validateMusicIdField ::
  "validation_rules \<Rightarrow> validation_errors \<Rightarrow> AdFormData \<Rightarrow> FormErrors \<Rightarrow> jsval + FormErrors" where
  "validateMusicIdField rules msgs formData errors =
     (if musicOption formData = ''existing'' then
        (case musicId formData of
           None \<Rightarrow> Inl (new_TypeError ''Cannot read properties of undefined (reading 'trim')'')
         | Some mid \<Rightarrow>
             if trim mid = [] then Inr (errors(''musicId'' \<mapsto> musicId_required msgs))
             else (case rule_musicId_pattern rules of
                None \<Rightarrow> Inl (new_TypeError ''Cannot read properties of undefined (reading 'pattern')'')
              | Some test \<Rightarrow>
                  if \<not> test mid then Inr (errors(''musicId'' \<mapsto> musicId_invalid msgs))
                  else Inr errors))
      else Inr errors)"

text \<open>The block \<open>if (formData.musicOption === "upload") { ... }\<close>.\<close>

definition validateUploadField :: "validation_errors \<Rightarrow> AdFormData \<Rightarrow> FormErrors \<Rightarrow> FormErrors" where
  "validateUploadField msgs formData errors =
     (if musicOption formData = ''upload'' then
        (case uploadedMusicFile formData of
           None \<Rightarrow> errors(''uploadedMusicFile'' \<mapsto> uploadedMusicFile_required msgs)
         | Some file \<Rightarrow>
             (let errors1 =
                    (if file_type file \<notin> set validTypes
                     then errors(''uploadedMusicFile'' \<mapsto> uploadedMusicFile_invalidType msgs)
                     else errors)
              in if file_size file > maxSize
                 then errors1(''uploadedMusicFile'' \<mapsto> uploadedMusicFile_tooLarge msgs)
                 else errors1))
      else errors)"

text \<open>
  \<open>validateAdForm\<close>: the checks run in the order of the source, each one adding to the
  \<open>errors\<close> object built so far (a later assignment to the same key replaces the
  earlier message).
\<close>

definition validateAdForm ::
  "validation_rules \<Rightarrow> validation_errors \<Rightarrow> AdFormData \<Rightarrow> jsval + FormErrors" where
  "validateAdForm rules msgs formData =
     (let errors0 = (Map.empty :: FormErrors);
          errors1 =
            (if trim (campaignName formData) = []
             then errors0(''campaignName'' \<mapsto> campaignName_required msgs)
             else if length (campaignName formData) < rule_campaignName_minLength rules
             then errors0(''campaignName'' \<mapsto> campaignName_minLength msgs)
             else if length (campaignName formData) > rule_campaignName_maxLength rules
             then errors0(''campaignName'' \<mapsto> campaignName_maxLength msgs)
             else errors0);
          errors2 =
            (if objective formData = [] then errors1(''objective'' \<mapsto> objective_required msgs)
             else errors1);
          errors3 =
            (if trim (adText formData) = []
             then errors2(''adText'' \<mapsto> adText_required msgs)
             else if length (adText formData) > rule_adText_maxLength rules
             then errors2(''adText'' \<mapsto> adText_maxLength msgs)
             else errors2);
          errors4 =
            (if cta formData = [] then errors3(''cta'' \<mapsto> cta_required msgs) else errors3);
          errors5 =
            (if musicOption formData = []
             then errors4(''musicOption'' \<mapsto> musicOption_required msgs)
             else errors4);
          errors6 =
            (if objective formData = ''CONVERSIONS'' \<and> musicOption formData = ''none''
             then errors5(''musicOption'' \<mapsto> musicOption_invalidForObjective msgs)
             else errors5)
      in case validateMusicIdField rules msgs formData errors6 of
           Inl thrown \<Rightarrow> Inl thrown
         | Inr errors7 \<Rightarrow> Inr (validateUploadField msgs formData errors7))"

text \<open>\<open>validateField\<close>: the form with one field replaced, validated as a whole.\<close>

definition validateField ::
  "validation_rules \<Rightarrow> validation_errors \<Rightarrow> string \<Rightarrow> (AdFormData \<Rightarrow> AdFormData) \<Rightarrow>
     AdFormData \<Rightarrow> jsval + jsval" where
  "validateField rules msgs fieldName setField formData =
     (case validateAdForm rules msgs (setField formData) of
        Inl thrown \<Rightarrow> Inl thrown
      | Inr errors \<Rightarrow>
          Inr (case errors fieldName of None \<Rightarrow> JUndefined | Some msg \<Rightarrow> msg))"

text \<open>\<open>hasErrors\<close>: some key is present.\<close>

definition hasErrors :: "FormErrors \<Rightarrow> bool" where
  "hasErrors errors \<longleftrightarrow> dom errors \<noteq> {}"

section \<open>Credentials (src/services/oauth.ts, src/types/tiktok.ts)\<close>

record OAuthTokens =
  accessToken :: string
  refreshToken :: "string option"
  expires_in :: int
  timestamp :: int
  advertiser_id :: "string option"

text \<open>\<open>isTokenValid\<close>, with the clock reading \<open>Date.now()\<close> as the argument \<open>now\<close>.\<close>

definition isTokenValid :: "int \<Rightarrow> OAuthTokens option \<Rightarrow> bool" where
  "isTokenValid now tokens =
     (case tokens of
        None \<Rightarrow> False
      | Some t \<Rightarrow>
          (let expirationTime = timestamp t + expires_in t * 1000;
               bufferTime = 5 * 60 * 1000
           in now < expirationTime - bufferTime))"

section \<open>The environment: configuration, storage, network\<close>

text \<open>The variables of \<open>import.meta.env\<close> that the services read.\<close>

record env =
  VITE_TIKTOK_APP_ID :: string
  VITE_TIKTOK_APP_SECRET :: string
  VITE_REDIRECT_URI :: string
  VITE_API_BASE_URL :: string
  VITE_API_MODE :: string

text \<open>\<open>const API_MODE = import.meta.env.VITE_API_MODE || "real"\<close>.\<close>

definition API_MODE :: "env \<Rightarrow> string" where
  "API_MODE e = (if VITE_API_MODE e = [] then ''real'' else VITE_API_MODE e)"

text \<open>
  A call of \<open>fetch\<close> and what comes of it: the promise rejects (no response was
  reached), or a response arrives whose body fails to parse in \<open>response.json()\<close>, or
  a response arrives with its \<open>ok\<close> flag and its parsed body.
\<close>

record request =
  req_url :: string
  req_method :: string
  req_headers :: "(string \<times> string) list"
  req_body :: "string option"

datatype fetch_outcome =
    FetchRejects jsval
  | JsonRejects bool jsval
  | Responds bool jsval

type_synonym network = "request \<Rightarrow> fetch_outcome"

text \<open>
  The browser state the services touch: the two storages (\<open>getItem\<close> of a missing key
  is \<open>null\<close>, here \<open>None\<close>), whether \<open>localStorage.setItem\<close> fails (quota exceeded), the
  requests sent so far, and the address the window was last sent to.
\<close>

record world =
  sessionStorage :: "string \<rightharpoonup> string"
  localStorage :: "string \<rightharpoonup> string"
  localStorage_full :: bool
  requests :: "request list"
  location_href :: "string option"

definition fetch :: "network \<Rightarrow> request \<Rightarrow> world \<Rightarrow> fetch_outcome \<times> world" where
  "fetch net r w = (net r, w\<lparr>requests := requests w @ [r]\<rparr>)"

section \<open>The remote gateway (src/services/tiktokApi.ts)\<close>

definition API_ENDPOINTS_validateMusic :: string where
  "API_ENDPOINTS_validateMusic = ''/music/validate''"

definition MOCK_MUSIC_IDS :: "string list" where
  "MOCK_MUSIC_IDS = [''1234567890123456'', ''9876543210987654'']"

text \<open>
  The object literal
  \<open>{code: data.code?.toString() || dc, message: data.message || dm, data: data.data}\<close>
  that \<open>apiRequest\<close> and \<open>exchangeCodeForTokens\<close> throw. Reading \<open>data.code\<close> throws when
  \<open>data\<close> is \<open>null\<close> or \<open>undefined\<close>; so does \<open>toString()\<close> on a code that shadows it.
\<close>

definition make_ApiError :: "jsval \<Rightarrow> string \<Rightarrow> string \<Rightarrow> jsval + jsval" where
  "make_ApiError data dc dm =
     (case get_member data ''code'' of
        Inl thrown \<Rightarrow> Inl thrown
      | Inr code \<Rightarrow>
          (case (if code = JUndefined \<or> code = JNull then Inr JUndefined
                 else map_sum id JStr (js_ToString code)) of
             Inl thrown \<Rightarrow> Inl thrown
           | Inr codeString \<Rightarrow>
               Inr (JObj PlainObject
                 [(''code'', js_or codeString (JStr dc)),
                  (''message'', js_or (js_prop data ''message'') (JStr dm)),
                  (''data'', js_prop data ''data'')])))"

definition networkError_value :: jsval where
  "networkError_value =
     JObj PlainObject
       [(''code'', JStr ''network_error''),
        (''message'', JStr ''Network request failed. Please check your connection.'')]"

text \<open>The \<open>try\<close> block of \<open>apiRequest\<close>, from the outcome of the \<open>fetch\<close> on.\<close>

definition apiRequest_try :: "fetch_outcome \<Rightarrow> jsval + jsval" where
  "apiRequest_try outcome =
     (case outcome of
        FetchRejects thrown \<Rightarrow> Inl thrown
      | JsonRejects ok thrown \<Rightarrow> Inl thrown
      | Responds ok data \<Rightarrow>
          (case get_member data ''code'' of
             Inl thrown \<Rightarrow> Inl thrown
           | Inr code \<Rightarrow>
               if code \<noteq> JNum 0
               then (case make_ApiError data ''api_error'' ''API request failed'' of
                       Inl thrown \<Rightarrow> Inl thrown
                     | Inr error \<Rightarrow> Inl error)
               else Inr (js_prop data ''data'')))"

text \<open>The \<open>catch\<close> block of \<open>apiRequest\<close>: every path throws.\<close>

definition apiRequest_catch :: "jsval \<Rightarrow> jsval" where
  "apiRequest_catch error =
     (if isApiError error then error
      else if instanceof_TypeError error then networkError_value
      else error)"

definition apiRequest ::
  "env \<Rightarrow> network \<Rightarrow> string \<Rightarrow> string \<Rightarrow> string \<Rightarrow> string option \<Rightarrow> world \<Rightarrow>
     (jsval + jsval) \<times> world" where
  "apiRequest e net endpoint token method body w =
     (let r = \<lparr> req_url = VITE_API_BASE_URL e @ endpoint,
                req_method = method,
                req_headers = [(''Access-Token'', token),
                               (''Content-Type'', ''application/json'')],
                req_body = body \<rparr>;
          (outcome, w') = fetch net r w
      in (case apiRequest_try outcome of
            Inr result \<Rightarrow> Inr result
          | Inl error \<Rightarrow> Inl (apiRequest_catch error),
          w'))"

text \<open>\<open>mockValidateMusicId\<close> (the delay of 800 ms is not modelled).\<close>

definition mockValidateMusicId :: "string \<Rightarrow> jsval" where
  "mockValidateMusicId mid =
     (if mid \<in> set MOCK_MUSIC_IDS
      then JObj PlainObject
             [(''valid'', JBool True), (''music_id'', JStr mid),
              (''title'', JStr ''Sample Track''), (''artist'', JStr ''Sample Artist'')]
      else JObj PlainObject
             [(''valid'', JBool False), (''music_id'', JStr mid),
              (''error'', JStr ''Music ID not found in TikTok library'')])"

text \<open>The value \<open>{valid: false, music_id: musicId, error: error.message}\<close>.\<close>

definition invalidMusic :: "string \<Rightarrow> jsval \<Rightarrow> jsval" where
  "invalidMusic mid msg =
     JObj PlainObject [(''valid'', JBool False), (''music_id'', JStr mid), (''error'', msg)]"

text \<open>
  \<open>validateMusicId\<close>: in mock mode the mock answers; otherwise the request is sent, and
  the \<open>catch\<close> block turns every error that passes \<open>isApiError\<close> into a value and
  rethrows the others. Reading \<open>data.title\<close> is inside the \<open>try\<close> block.
\<close>

definition validateMusicId ::
  "env \<Rightarrow> network \<Rightarrow> string \<Rightarrow> string \<Rightarrow> world \<Rightarrow> (jsval + jsval) \<times> world" where
  "validateMusicId e net mid token w =
     (if API_MODE e = ''mock'' then (Inr (mockValidateMusicId mid), w)
      else
        (let (response, w') =
               apiRequest e net API_ENDPOINTS_validateMusic token ''POST''
                 (JSON_stringify (JObj PlainObject [(''music_id'', JStr mid)])) w;
             attempt =
               (case response of
                  Inl thrown \<Rightarrow> Inl thrown
                | Inr data \<Rightarrow>
                    (case get_member data ''title'' of
                       Inl thrown \<Rightarrow> Inl thrown
                     | Inr data_title \<Rightarrow>
                         (case get_member data ''artist'' of
                            Inl thrown \<Rightarrow> Inl thrown
                          | Inr data_artist \<Rightarrow>
                              Inr (JObj PlainObject
                                [(''valid'', JBool True), (''music_id'', JStr mid),
                                 (''title'', data_title), (''artist'', data_artist)]))))
         in (case attempt of
               Inr result \<Rightarrow> Inr result
             | Inl error \<Rightarrow>
                 if isApiError error then Inr (invalidMusic mid (js_prop error ''message''))
                 else Inl error,
             w')))"

section \<open>The authorization client (src/services/oauth.ts)\<close>

definition OAUTH_CONFIG_authUrl :: string where
  "OAUTH_CONFIG_authUrl = ''https://ads.tiktok.com/marketing_api/auth''"

definition OAUTH_CONFIG_tokenUrl :: string where
  "OAUTH_CONFIG_tokenUrl = ''https://business-api.tiktok.com/open_api/v1.3/oauth2/access_token''"

definition OAUTH_CONFIG_scopes :: "string list" where
  "OAUTH_CONFIG_scopes = [''user.info.basic'', ''video.list'', ''ad_management'']"

subsection \<open>\<open>URLSearchParams\<close>\<close>

definition upper_hex_digit :: "nat \<Rightarrow> char" where
  "upper_hex_digit d = ''0123456789ABCDEF'' ! d"

definition percent_byte :: "nat \<Rightarrow> string" where
  "percent_byte b = [CHR ''%'', upper_hex_digit (b div 16), upper_hex_digit (b mod 16)]"

text \<open>
  The form-urlencoded serialisation of one code unit: letters, digits and \<open>* - . _\<close> stay,
  a space becomes \<open>+\<close>, every other byte of the UTF-8 encoding is percent-encoded.
\<close>

definition urlencode_char :: "char \<Rightarrow> string" where
  "urlencode_char c =
     (let n = (of_char c :: nat)
      in if (48 \<le> n \<and> n \<le> 57) \<or> (65 \<le> n \<and> n \<le> 90) \<or> (97 \<le> n \<and> n \<le> 122) \<or>
            n \<in> {42, 45, 46, 95}
         then [c]
         else if n = 32 then ''+''
         else if n < 128 then percent_byte n
         else percent_byte (192 + n div 64) @ percent_byte (128 + n mod 64))"

definition urlencode :: "string \<Rightarrow> string" where
  "urlencode s = concat (map urlencode_char s)"

text \<open>\<open>new URLSearchParams({...}).toString()\<close>.\<close>

definition URLSearchParams_toString :: "(string \<times> string) list \<Rightarrow> string" where
  "URLSearchParams_toString params =
     join_with ''&'' (map (\<lambda>(k, v). urlencode k @ ''='' @ urlencode v) params)"

subsection \<open>The anti-forgery state and the redirect\<close>

text \<open>
  \<open>generateRandomState\<close>: 32 random bytes, each as two lower-case hexadecimal digits. The
  random source \<open>crypto.getRandomValues\<close> is the argument \<open>entropy\<close>, read at the indices
  0 to 31.
\<close>

definition generateRandomState :: "(nat \<Rightarrow> nat) \<Rightarrow> string" where
  "generateRandomState entropy =
     concat (map (\<lambda>i. let byte = entropy i mod 256
                        in [hex_digit (byte div 16), hex_digit (byte mod 16)]) [0..<32])"

text \<open>\<open>initiateOAuthFlow\<close>: stores the fresh state and sends the window to the authorization page.\<close>

definition initiateOAuthFlow :: "env \<Rightarrow> (nat \<Rightarrow> nat) \<Rightarrow> world \<Rightarrow> world" where
  "initiateOAuthFlow e entropy w =
     (let state = generateRandomState entropy;
          w1 = w\<lparr>sessionStorage := (sessionStorage w)(''oauth_state'' \<mapsto> state)\<rparr>;
          params = [(''app_id'', VITE_TIKTOK_APP_ID e),
                    (''state'', state),
                    (''redirect_uri'', VITE_REDIRECT_URI e),
                    (''scope'', join_with '','' OAUTH_CONFIG_scopes)];
          authUrl = OAUTH_CONFIG_authUrl @ ''?'' @ URLSearchParams_toString params
      in w1\<lparr>location_href := Some authUrl\<rparr>)"

subsection \<open>The credential store\<close>

text \<open>\<open>storeTokens\<close>: a failing \<open>setItem\<close> is caught and logged, and nothing is stored.\<close>

definition storeTokens :: "jsval \<Rightarrow> world \<Rightarrow> world" where
  "storeTokens tokens w =
     (if localStorage_full w then w
      else w\<lparr>localStorage := (localStorage w)(''tiktok_tokens'' \<mapsto> stringified tokens)\<rparr>)"

definition clearTokens :: "world \<Rightarrow> world" where
  "clearTokens w = w\<lparr>localStorage := (localStorage w)(''tiktok_tokens'' := None)\<rparr>"

text \<open>
  The parsed text is given the type \<open>OAuthTokens\<close> unchecked. \<open>isTokenValid\<close> is modelled
  on values of that type and on the values its first test \<open>!tokens\<close> rejects; on any
  other parsed value (\<open>IllTyped\<close>) the model says nothing.
\<close>

datatype decoded = Decoded "OAuthTokens option" | IllTyped

definition optional_string :: "jsval \<Rightarrow> string option option" where
  "optional_string v =
     (case v of JUndefined \<Rightarrow> Some None | JStr s \<Rightarrow> Some (Some s) | _ \<Rightarrow> None)"

definition as_OAuthTokens :: "jsval \<Rightarrow> decoded" where
  "as_OAuthTokens v =
     (if \<not> truthy v then Decoded None
      else
        (case v of
           JObj PlainObject fs \<Rightarrow>
             (case (js_prop v ''accessToken'', optional_string (js_prop v ''refreshToken''),
                    js_prop v ''expires_in'', js_prop v ''timestamp'',
                    optional_string (js_prop v ''advertiser_id'')) of
                (JStr a, Some r, JNum ex, JNum ts, Some adv) \<Rightarrow>
                  Decoded (Some \<lparr> accessToken = a, refreshToken = r, expires_in = ex,
                                  timestamp = ts, advertiser_id = adv \<rparr>)
              | _ \<Rightarrow> IllTyped)
         | _ \<Rightarrow> IllTyped))"

text \<open>The object a credential is at run time: optional fields that are absent have no key.\<close>

definition tokens_object :: "OAuthTokens \<Rightarrow> jsval" where
  "tokens_object t =
     JObj PlainObject
       ([(''accessToken'', JStr (accessToken t))] @
        (case refreshToken t of None \<Rightarrow> [] | Some r \<Rightarrow> [(''refreshToken'', JStr r)]) @
        [(''expires_in'', JNum (expires_in t)), (''timestamp'', JNum (timestamp t))] @
        (case advertiser_id t of None \<Rightarrow> [] | Some a \<Rightarrow> [(''advertiser_id'', JStr a)]))"

datatype 'a modelled = Modelled 'a | NotModelled

text \<open>
  \<open>getStoredTokens\<close>, with the clock as the argument \<open>now\<close>: \<open>JNull\<close> is the result \<open>null\<close>.
  Everything is inside one \<open>try\<close> block whose \<open>catch\<close> logs and returns \<open>null\<close>, so the
  SyntaxError of \<open>JSON.parse\<close> ends there. An expired credential is removed from the
  storage.
\<close>

definition getStoredTokens :: "int \<Rightarrow> world \<Rightarrow> jsval modelled \<times> world" where
  "getStoredTokens now w =
     (case localStorage w ''tiktok_tokens'' of
        None \<Rightarrow> (Modelled JNull, w)
      | Some stored \<Rightarrow>
          if stored = [] then (Modelled JNull, w)
          else
            (case JSON_parse stored of
               Inl SyntaxErr \<Rightarrow> (Modelled JNull, w)
             | Inl _ \<Rightarrow> (NotModelled, w)
             | Inr tokens \<Rightarrow>
                 (case as_OAuthTokens tokens of
                    IllTyped \<Rightarrow> (NotModelled, w)
                  | Decoded typed \<Rightarrow>
                      if \<not> isTokenValid now typed then (Modelled JNull, clearTokens w)
                      else (Modelled tokens, w))))"

subsection \<open>The callback\<close>

text \<open>
  \<open>exchangeCodeForTokens\<close>: there is no \<open>try\<close> block here, every exception propagates.
  The test is \<open>!response.ok || data.code !== 0\<close>, so \<open>data.code\<close> is read in the test only
  when the response is \<open>ok\<close>.
\<close>

definition exchangeCodeForTokens ::
  "env \<Rightarrow> network \<Rightarrow> string \<Rightarrow> world \<Rightarrow> (jsval + jsval) \<times> world" where
  "exchangeCodeForTokens e net code w =
     (let params = [(''app_id'', VITE_TIKTOK_APP_ID e),
                    (''secret'', VITE_TIKTOK_APP_SECRET e),
                    (''auth_code'', code)];
          r = \<lparr> req_url = OAUTH_CONFIG_tokenUrl @ ''?'' @ URLSearchParams_toString params,
                req_method = ''POST'',
                req_headers = [(''Content-Type'', ''application/json'')],
                req_body = None \<rparr>;
          (outcome, w') = fetch net r w
      in (case outcome of
            FetchRejects thrown \<Rightarrow> Inl thrown
          | JsonRejects ok thrown \<Rightarrow> Inl thrown
          | Responds ok data \<Rightarrow>
              (case (if \<not> ok then Inr True
                     else (case get_member data ''code'' of
                             Inl thrown \<Rightarrow> Inl thrown
                           | Inr c \<Rightarrow> Inr (c \<noteq> JNum 0))) of
                 Inl thrown \<Rightarrow> Inl thrown
               | Inr True \<Rightarrow>
                   (case make_ApiError data ''token_exchange_failed''
                           ''Failed to exchange code for tokens'' of
                      Inl thrown \<Rightarrow> Inl thrown
                    | Inr error \<Rightarrow> Inl error)
               | Inr False \<Rightarrow> Inr (js_prop data ''data'')),
          w'))"

text \<open>
  The own enumerable properties that the spread \<open>{...v}\<close> copies: those of an object,
  the indexed elements of an array or of a string, none of any other value.
\<close>

fun spread :: "jsval \<Rightarrow> (string \<times> jsval) list" where
  "spread (JObj c fs) = filter (\<lambda>(k, v). enumerable c k) fs"
| "spread (JArr xs) = zip (map show_nat [0..<length xs]) xs"
| "spread (JStr s) = zip (map show_nat [0..<length s]) (map (\<lambda>c. JStr [c]) s)"
| "spread _ = []"

definition csrfError :: jsval where
  "csrfError = new_Error ''Invalid state parameter. Possible CSRF attack.''"

text \<open>
  \<open>handleOAuthCallback\<close>, with the clock as the argument \<open>now\<close>. The comparison
  \<open>state !== savedState\<close> is between a string and the stored string or \<open>null\<close>; the
  \<open>throw\<close> comes before \<open>removeItem\<close>. The \<open>catch\<close> block logs and rethrows.
\<close>

definition handleOAuthCallback ::
  "env \<Rightarrow> network \<Rightarrow> int \<Rightarrow> string \<Rightarrow> string \<Rightarrow> world \<Rightarrow> (jsval + jsval) \<times> world" where
  "handleOAuthCallback e net now code state w =
     (let savedState = sessionStorage w ''oauth_state''
      in if Some state \<noteq> savedState then (Inl csrfError, w)
         else
           (let w1 = w\<lparr>sessionStorage := (sessionStorage w)(''oauth_state'' := None)\<rparr>;
                (exchanged, w2) = exchangeCodeForTokens e net code w1
            in case exchanged of
                 Inl error \<Rightarrow> (Inl error, w2)
               | Inr tokens \<Rightarrow>
                   (let tokensWithTimestamp =
                          JObj PlainObject (AList.update ''timestamp'' (JNum now) (spread tokens))
                    in (Inr tokensWithTimestamp, storeTokens tokensWithTimestamp w2))))"

section \<open>Scenarios and auxiliary notions\<close>

text \<open>A configuration in real mode, an empty browser state, and a fixed random source.\<close>

definition env0 :: env where
  "env0 =
     \<lparr> VITE_TIKTOK_APP_ID = ''app'', VITE_TIKTOK_APP_SECRET = ''secret'',
       VITE_REDIRECT_URI = ''http://localhost:5173/auth/callback'',
       VITE_API_BASE_URL = ''https://api.example'', VITE_API_MODE = ''real'' \<rparr>"

definition world0 :: world where
  "world0 =
     \<lparr> sessionStorage = Map.empty, localStorage = Map.empty, localStorage_full = False,
       requests = [], location_href = None \<rparr>"

definition entropy0 :: "nat \<Rightarrow> nat" where
  "entropy0 i = 7 * i + 3"

text \<open>
  The same configuration in mock mode, three response bodies of the music endpoint
  (a rejection, a success without data, a success), and the error of a body that is
  not JSON.
\<close>

definition env_mock :: env where
  "env_mock = env0\<lparr>VITE_API_MODE := ''mock''\<rparr>"

definition not_found_body :: jsval where
  "not_found_body =
     JObj PlainObject [(''code'', JNum 40002), (''message'', JStr ''Music not found'')]"

definition no_data_body :: jsval where
  "no_data_body = JObj PlainObject [(''code'', JNum 0), (''message'', JStr ''OK'')]"

definition found_body :: jsval where
  "found_body =
     JObj PlainObject
       [(''code'', JNum 0), (''message'', JStr ''OK''),
        (''data'', JObj PlainObject [(''title'', JStr ''Song''), (''artist'', JStr ''Band'')])]"

definition json_syntax_error :: jsval where
  "json_syntax_error = JObj SyntaxErrorObject [(''message'', JStr ''Unexpected token'')]"

text \<open>A token endpoint that accepts every code.\<close>

definition token_server :: network where
  "token_server r =
     Responds True (JObj PlainObject
       [(''code'', JNum 0), (''message'', JStr ''OK''),
        (''data'', JObj PlainObject
           [(''accessToken'', JStr ''tok''), (''expires_in'', JNum 86400)])])"

text \<open>The state after \<open>initiateOAuthFlow\<close>, and after a callback with a wrong state.\<close>

definition issued_world :: world where
  "issued_world = initiateOAuthFlow env0 entropy0 world0"

definition after_wrong_state :: world where
  "after_wrong_state =
     snd (handleOAuthCallback env0 token_server 1700000000000 ''abc'' ''wrong'' issued_world)"

text \<open>Two credentials issued for a day: one an hour old, one long expired.\<close>

definition fresh_tokens :: OAuthTokens where
  "fresh_tokens =
     \<lparr> accessToken = ''tok'', refreshToken = None, expires_in = 86400,
       timestamp = 1699996400000, advertiser_id = Some ''ADV_1234567890'' \<rparr>"

definition stale_tokens :: OAuthTokens where
  "stale_tokens =
     \<lparr> accessToken = ''tok'', refreshToken = None, expires_in = 86400,
       timestamp = 1600000000000, advertiser_id = None \<rparr>"

text \<open>A browser state whose credential slot holds a text that is not JSON.\<close>

definition corrupt_world :: world where
  "corrupt_world = world0\<lparr>localStorage := [''tiktok_tokens'' \<mapsto> ''{not json'']\<rparr>"

text \<open>
  For the proofs about \<open>JSON.parse\<close>: what may follow a number or a member of an
  object, the objects whose values are strings and numbers, and the text
  \<open>JSON.stringify\<close> writes for their members.
\<close>

definition ends_number :: "string \<Rightarrow> bool" where
  "ends_number rest =
     (case rest of [] \<Rightarrow> True
      | c # _ \<Rightarrow> \<not> is_digit c \<and> c \<noteq> CHR ''.'' \<and> c \<noteq> CHR ''e'' \<and> c \<noteq> CHR ''E'')"

definition ends_value :: "string \<Rightarrow> bool" where
  "ends_value rest = (case rest of [] \<Rightarrow> False | c # _ \<Rightarrow> c = CHR '','' \<or> c = CHR ''}'')"

definition flat_value :: "jsval \<Rightarrow> bool" where
  "flat_value v = (case v of JStr _ \<Rightarrow> True | JNum _ \<Rightarrow> True | _ \<Rightarrow> False)"

definition value_text :: "jsval \<Rightarrow> string" where
  "value_text v = (case v of JStr s \<Rightarrow> json_quote s | JNum i \<Rightarrow> show_int i | _ \<Rightarrow> [])"

definition member_text :: "string \<times> jsval \<Rightarrow> string" where
  "member_text m = json_quote (fst m) @ '':'' @ value_text (snd m)"

section \<open>Verified properties\<close>

subsection \<open>Credential validity\<close>

text \<open>
  C3. A credential is valid exactly while the clock is strictly before
  \<open>timestamp + expires_in * 1000 - 300000\<close>: at that instant and after it \<open>isTokenValid\<close>
  is false, before it true; and \<open>isTokenValid(null)\<close> is false.
\<close>

theorem isTokenValid_buffer_edge:
  "(isTokenValid now (Some c) \<longleftrightarrow> now < timestamp c + expires_in c * 1000 - 300000) \<and>
   isTokenValid (timestamp c + expires_in c * 1000 - 300000) (Some c) = False \<and>
   isTokenValid now None = False"
  by (simp add: isTokenValid_def)

subsection \<open>The error classifier\<close>

lemma descriptor_etypes [simp]:
  "etype networkError = NETWORK_ERROR"
  "etype invalidCredentials = OAUTH_INVALID_CREDENTIALS"
  "etype expiredToken = OAUTH_EXPIRED_TOKEN"
  "etype missingPermissions = OAUTH_MISSING_PERMISSIONS"
  "etype geoRestriction = OAUTH_GEO_RESTRICTION"
  "etype rateLimit = RATE_LIMIT"
  "etype musicInvalidId = MUSIC_INVALID_ID"
  "etype musicNotAvailable = MUSIC_NOT_AVAILABLE"
  "etype (genericApiError error) = UNKNOWN_ERROR"
  "etype unknownError = UNKNOWN_ERROR"
  by (simp_all add: networkError_def invalidCredentials_def expiredToken_def
      missingPermissions_def geoRestriction_def rateLimit_def musicInvalidId_def
      musicNotAvailable_def genericApiError_def unknownError_def)

lemma classifyApiError_etype:
  assumes "classifyApiError error = Inr d"
  shows "etype d \<noteq> NETWORK_ERROR"
proof -
  have "d \<in> {invalidCredentials, expiredToken, missingPermissions, geoRestriction, rateLimit,
              musicInvalidId, musicNotAvailable, genericApiError error}"
    using assms
    by (simp add: classifyApiError_def Let_def split: sum.splits bool.splits if_splits)
  then show ?thesis by auto
qed

text \<open>
  C4. The classifier is not total. An object that has the keys \<open>code\<close> and \<open>message\<close>
  passes the type guard whatever the keys hold, and \<open>error.message.toLowerCase()\<close> then
  throws when the message is not a string: on \<open>{code: "1", message: 42, data: undefined}\<close>
  the classifier throws a TypeError instead of returning a descriptor.
\<close>

theorem mapApiErrorToUserError_throws_on_number_message:
  "mapApiErrorToUserError
     (JObj PlainObject [(''code'', JStr ''1''), (''message'', JNum 42), (''data'', JUndefined)])
   = Inl (new_TypeError ''toLowerCase is not a function'')"
  by (simp add: mapApiErrorToUserError_def isApiError_def classifyApiError_def
      optional_member_def)

text \<open>
  C5, as stated, fails: a TypeError whose message does not contain \<open>fetch\<close> (the
  transport failure of a browser that reports \<open>Load failed\<close>) is classified as the
  unknown error, not as the network error.
\<close>

theorem network_error_needs_fetch_counterexample:
  "instanceof_TypeError (new_TypeError ''Load failed'') \<and>
   mapApiErrorToUserError (new_TypeError ''Load failed'') = Inr unknownError \<and>
   etype unknownError \<noteq> NETWORK_ERROR"
  by (simp add: mapApiErrorToUserError_def isApiError_def new_TypeError_def)

text \<open>
  C5, amended. For a TypeError whose message is a string, the classifier returns the
  network error descriptor, which is retryable, exactly when the message contains
  the substring \<open>fetch\<close>.
\<close>

theorem network_error_iff_fetch_in_message:
  assumes "instanceof_TypeError error" and "js_prop error ''message'' = JStr m"
  shows "(mapApiErrorToUserError error = Inr networkError \<longleftrightarrow> str_includes m ''fetch'') \<and>
         etype networkError = NETWORK_ERROR \<and> canRetry networkError"
proof (cases "str_includes m ''fetch''")
  case True
  with assms show ?thesis
    by (simp add: mapApiErrorToUserError_def) (simp add: networkError_def)
next
  case False
  have "classifyApiError error \<noteq> Inr networkError"
    using classifyApiError_etype [of error networkError] by auto
  moreover have "unknownError \<noteq> networkError"
    by (simp add: unknownError_def networkError_def)
  ultimately show ?thesis
    using False assms by (simp add: mapApiErrorToUserError_def) (simp add: networkError_def)
qed

theorem network_error_iff_fetch_in_message_witness:
  "instanceof_TypeError (new_TypeError ''Failed to fetch'') \<and>
   js_prop (new_TypeError ''Failed to fetch'') ''message'' = JStr ''Failed to fetch'' \<and>
   str_includes ''Failed to fetch'' ''fetch'' \<and>
   mapApiErrorToUserError (new_TypeError ''Failed to fetch'') = Inr networkError \<and>
   canRetry networkError"
proof -
  have a: "instanceof_TypeError (new_TypeError ''Failed to fetch'')"
    by (simp add: new_TypeError_def)
  have b: "js_prop (new_TypeError ''Failed to fetch'') ''message'' = JStr ''Failed to fetch''"
    by (simp add: new_TypeError_def)
  have c: "str_includes ''Failed to fetch'' ''fetch''"
    by simp
  show ?thesis
    using network_error_iff_fetch_in_message [OF a b] a b c by simp
qed

subsection \<open>Form validation\<close>

text \<open>
  C7. With the music option \<open>none\<close>, whatever the other fields and the tables hold, the
  validator returns normally; under the objective \<open>CONVERSIONS\<close> the key \<open>musicOption\<close>
  carries the objective-specific message (the last assignment to that key), and
  under the objective \<open>TRAFFIC\<close> the key is absent.
\<close>

theorem conversions_requires_music:
  assumes "musicOption f = ''none''"
  shows "(\<exists>errs. validateAdForm rules msgs (f\<lparr>objective := ''CONVERSIONS''\<rparr>) = Inr errs \<and>
            errs ''musicOption'' = Some (musicOption_invalidForObjective msgs)) \<and>
         (\<exists>errs. validateAdForm rules msgs (f\<lparr>objective := ''TRAFFIC''\<rparr>) = Inr errs \<and>
            errs ''musicOption'' = None)"
  using assms
  by (simp add: validateAdForm_def validateMusicIdField_def validateUploadField_def Let_def)

theorem conversions_requires_music_witness:
  "musicOption \<lparr> campaignName = ''Summer sale'', objective = ''TRAFFIC'', adText = ''Buy now'',
       cta = ''SHOP_NOW'', musicOption = ''none'', musicId = Some [],
       uploadedMusicFile = None \<rparr> = ''none'' \<and>
   (\<exists>errs. validateAdForm VALIDATION_RULES VALIDATION_ERRORS
        \<lparr> campaignName = ''Summer sale'', objective = ''CONVERSIONS'', adText = ''Buy now'',
          cta = ''SHOP_NOW'', musicOption = ''none'', musicId = Some [],
          uploadedMusicFile = None \<rparr> = Inr errs \<and>
      errs ''musicOption'' = Some (JStr ''Music required for Conversions'')) \<and>
   (\<exists>errs. validateAdForm VALIDATION_RULES VALIDATION_ERRORS
        \<lparr> campaignName = ''Summer sale'', objective = ''TRAFFIC'', adText = ''Buy now'',
          cta = ''SHOP_NOW'', musicOption = ''none'', musicId = Some [],
          uploadedMusicFile = None \<rparr> = Inr errs \<and>
      errs ''musicOption'' = None)"
  using conversions_requires_music
    [of "\<lparr> campaignName = ''Summer sale'', objective = ''TRAFFIC'', adText = ''Buy now'',
           cta = ''SHOP_NOW'', musicOption = ''none'', musicId = Some [],
           uploadedMusicFile = None \<rparr>" VALIDATION_RULES VALIDATION_ERRORS]
  by (simp add: VALIDATION_ERRORS_def)

text \<open>
  C8. The validator is not exception-free. With the music option \<open>existing\<close> and the
  optional \<open>musicId\<close> absent, \<open>formData.musicId.trim()\<close> throws a TypeError, whatever the
  tables hold; the sibling block for \<open>upload\<close> tests the absent file first and reports
  it as a field error.
\<close>

theorem validateAdForm_throws_on_absent_musicId:
  "validateAdForm rules msgs
     \<lparr> campaignName = ''Summer sale'', objective = ''TRAFFIC'', adText = ''Buy now'',
       cta = ''SHOP_NOW'', musicOption = ''existing'', musicId = None,
       uploadedMusicFile = None \<rparr>
   = Inl (new_TypeError ''Cannot read properties of undefined (reading 'trim')'')"
  by (simp add: validateAdForm_def validateMusicIdField_def Let_def)


subsection \<open>The remote gateway\<close>

lemma sequence_Inl:
  assumes "sequence rs = Inl t"
  shows "Inl t \<in> set rs"
  using assms
  by (induction rs rule: sequence.induct) (auto split: sum.splits)

lemma js_ToString_throws:
  "js_ToString v = Inl t \<Longrightarrow> t = new_TypeError ''toString is not a function''"
proof (induction v arbitrary: t rule: js_ToString.induct)
  case (6 xs)
  then show ?case
    by (auto split: sum.splits if_splits dest!: sequence_Inl)
next
  case (7 c fs)
  then show ?case
    by (auto simp: Let_def split: sum.splits if_splits option.splits dest!: map_of_SomeD)
qed simp_all

lemma new_TypeError_facts [simp]:
  "instanceof_TypeError (new_TypeError m)" "\<not> isApiError (new_TypeError m)"
  by (simp_all add: new_TypeError_def isApiError_def)

lemma isApiError_networkError_value [simp]: "isApiError networkError_value"
  by (simp add: networkError_value_def isApiError_def)

lemma map_sum_id_Inl [simp]: "map_sum id f r = Inl x \<longleftrightarrow> r = Inl x"
  by (cases r) simp_all

lemma make_ApiError_cases:
  assumes "data \<noteq> JUndefined" "data \<noteq> JNull"
  shows "(\<exists>err. make_ApiError data dc dm = Inr err \<and> isApiError err) \<or>
         (\<exists>m. make_ApiError data dc dm = Inl (new_TypeError m))"
  using assms
  by (auto simp: make_ApiError_def get_member_def isApiError_def split: sum.splits
      dest: js_ToString_throws)

lemma apiRequest_catch_isApiError:
  "isApiError t \<or> instanceof_TypeError t \<Longrightarrow> isApiError (apiRequest_catch t)"
  by (auto simp: apiRequest_catch_def)

lemma apiRequest_try_structured_failure:
  assumes "data \<noteq> JUndefined" "data \<noteq> JNull" "js_prop data ''code'' \<noteq> JNum 0"
  shows "\<exists>t. apiRequest_try (Responds ok data) = Inl t \<and>
             (isApiError t \<or> instanceof_TypeError t)"
  using assms make_ApiError_cases [OF assms(1,2), of "''api_error''" "''API request failed''"]
  by (auto simp: apiRequest_try_def get_member_def)

lemma validateMusicId_of_failure:
  assumes "API_MODE e \<noteq> ''mock''"
    and "apiRequest_try outcome = Inl t" and "isApiError t \<or> instanceof_TypeError t"
  shows "\<exists>msg. fst (validateMusicId e (\<lambda>r. outcome) mid token w) = Inr (invalidMusic mid msg)"
  using assms apiRequest_catch_isApiError [OF assms(3)]
  by (auto simp: validateMusicId_def apiRequest_def fetch_def Let_def)

lemma validateMusicId_rethrows:
  assumes "API_MODE e \<noteq> ''mock''"
    and "outcome = FetchRejects thrown \<or> outcome = JsonRejects ok thrown"
    and "\<not> isApiError thrown" and "\<not> instanceof_TypeError thrown"
  shows "fst (validateMusicId e (\<lambda>r. outcome) mid token w) = Inl thrown"
  using assms
  by (auto simp: validateMusicId_def apiRequest_def fetch_def Let_def apiRequest_try_def
      apiRequest_catch_def)

lemma apiRequest_try_failure:
  assumes "data = JUndefined \<or> data = JNull \<or> js_prop data ''code'' \<noteq> JNum 0"
  shows "\<exists>t. apiRequest_try (Responds ok data) = Inl t \<and>
             (isApiError t \<or> instanceof_TypeError t)"
proof (cases "data = JUndefined \<or> data = JNull")
  case True
  then show ?thesis
    by (auto simp: apiRequest_try_def get_member_def)
next
  case False
  with assms show ?thesis
    using apiRequest_try_structured_failure [of data ok] by simp
qed

lemma apiRequest_try_success:
  assumes "js_prop data ''code'' = JNum 0"
  shows "apiRequest_try (Responds ok data) = Inr (js_prop data ''data'')"
proof -
  from assms have "data \<noteq> JUndefined" "data \<noteq> JNull" by auto
  with assms show ?thesis
    by (simp add: apiRequest_try_def get_member_def)
qed

lemma validateMusicId_of_success:
  assumes "API_MODE e \<noteq> ''mock''" and "apiRequest_try outcome = Inr d"
  shows "fst (validateMusicId e (\<lambda>r. outcome) mid token w) =
         (if d = JUndefined \<or> d = JNull
          then Inl (new_TypeError ''Cannot read properties of undefined or null'')
          else Inr (JObj PlainObject
                 [(''valid'', JBool True), (''music_id'', JStr mid),
                  (''title'', js_prop d ''title''), (''artist'', js_prop d ''artist'')]))"
  using assms
  by (simp add: validateMusicId_def apiRequest_def fetch_def Let_def get_member_def)

lemma validateMusicId_request_failure:
  assumes "API_MODE e \<noteq> ''mock''"
    and "outcome = FetchRejects thrown \<or> outcome = JsonRejects ok thrown"
  shows "if isApiError thrown \<or> instanceof_TypeError thrown
         then \<exists>msg. fst (validateMusicId e (\<lambda>r. outcome) mid token w)
                      = Inr (invalidMusic mid msg)
         else fst (validateMusicId e (\<lambda>r. outcome) mid token w) = Inl thrown"
proof (cases "isApiError thrown \<or> instanceof_TypeError thrown")
  case True
  from assms(2) have "apiRequest_try outcome = Inl thrown"
    by (auto simp: apiRequest_try_def)
  from validateMusicId_of_failure [OF assms(1) this True] True show ?thesis by simp
next
  case False
  then show ?thesis
    using validateMusicId_rethrows [OF assms(1) assms(2)] by simp
qed

lemma validateMusicId_response:
  assumes "API_MODE e \<noteq> ''mock''"
  shows "if data = JUndefined \<or> data = JNull \<or> js_prop data ''code'' \<noteq> JNum 0
         then \<exists>msg. fst (validateMusicId e (\<lambda>r. Responds ok data) mid token w)
                      = Inr (invalidMusic mid msg)
         else if js_prop data ''data'' = JUndefined \<or> js_prop data ''data'' = JNull
         then \<exists>t. fst (validateMusicId e (\<lambda>r. Responds ok data) mid token w) = Inl t \<and>
                  instanceof_TypeError t \<and> \<not> isApiError t
         else fst (validateMusicId e (\<lambda>r. Responds ok data) mid token w)
              = Inr (JObj PlainObject
                  [(''valid'', JBool True), (''music_id'', JStr mid),
                   (''title'', js_prop (js_prop data ''data'') ''title''),
                   (''artist'', js_prop (js_prop data ''data'') ''artist'')])"
proof (cases "data = JUndefined \<or> data = JNull \<or> js_prop data ''code'' \<noteq> JNum 0")
  case True
  from apiRequest_try_failure [OF True, of ok] obtain t where
    "apiRequest_try (Responds ok data) = Inl t" "isApiError t \<or> instanceof_TypeError t"
    by blast
  from validateMusicId_of_failure [OF assms this] True show ?thesis by simp
next
  case False
  then have "js_prop data ''code'' = JNum 0" by simp
  from validateMusicId_of_success [OF assms apiRequest_try_success [OF this, of ok]] False
  show ?thesis by auto
qed

lemma mock_not_found:
  "mid \<notin> set MOCK_MUSIC_IDS \<Longrightarrow>
   mockValidateMusicId mid = invalidMusic mid (JStr ''Music ID not found in TikTok library'')"
  by (simp add: mockValidateMusicId_def invalidMusic_def)

text \<open>
  C6, as stated, fails in its second half: a transport-level failure is not thrown.
  When \<open>fetch\<close> rejects with a TypeError, \<open>apiRequest\<close> replaces it by the structured
  \<open>network_error\<close> object, and the \<open>catch\<close> block of \<open>validateMusicId\<close> returns every
  structured error as a value.
\<close>

theorem transport_failure_returned_counterexample:
  "API_MODE env0 \<noteq> ''mock'' \<and>
   fst (validateMusicId env0 (\<lambda>r. FetchRejects (new_TypeError ''Failed to fetch''))
          ''1234567890'' ''tok'' world0)
   = Inr (invalidMusic ''1234567890''
            (JStr ''Network request failed. Please check your connection.''))"
  by (simp add: validateMusicId_def apiRequest_def fetch_def Let_def API_MODE_def env0_def
      apiRequest_try_def apiRequest_catch_def networkError_value_def isApiError_def
      new_TypeError_def)

text \<open>
  C6, amended. \<open>validateMusicId\<close> returns a "not found" rejection as the value
  \<open>{valid: false, music_id, error}\<close> and never throws it: in mock mode, where it
  returns what the mock answers, and in real mode, where the rejection is a response
  whose \<open>code\<close> is not \<open>0\<close>. In real mode it returns that same value for every other
  response whose \<open>code\<close> is not \<open>0\<close> (or whose body is \<open>null\<close>) and for a request that
  fails with a TypeError or a structured error, whether in \<open>fetch\<close> or in
  \<open>response.json()\<close>. It throws in exactly two cases: a request that fails with an
  error that is neither structured nor a TypeError is rethrown unchanged, and a
  response with \<open>code\<close> \<open>0\<close> whose \<open>data\<close> is \<open>null\<close> or absent makes \<open>data.title\<close> throw a
  TypeError, which is rethrown. Every other response with \<open>code\<close> \<open>0\<close> gives
  \<open>{valid: true, music_id, title, artist}\<close>.
\<close>

theorem validateMusicId_outcomes:
  "(API_MODE e = ''mock'' \<longrightarrow>
      fst (validateMusicId e net mid token w) = Inr (mockValidateMusicId mid) \<and>
      (mid \<notin> set MOCK_MUSIC_IDS \<longrightarrow>
         mockValidateMusicId mid
         = invalidMusic mid (JStr ''Music ID not found in TikTok library''))) \<and>
   (API_MODE e \<noteq> ''mock'' \<longrightarrow>
      (if isApiError thrown \<or> instanceof_TypeError thrown
       then (\<exists>msg. fst (validateMusicId e (\<lambda>r. FetchRejects thrown) mid token w)
                     = Inr (invalidMusic mid msg)) \<and>
            (\<exists>msg. fst (validateMusicId e (\<lambda>r. JsonRejects ok thrown) mid token w)
                     = Inr (invalidMusic mid msg))
       else fst (validateMusicId e (\<lambda>r. FetchRejects thrown) mid token w) = Inl thrown \<and>
            fst (validateMusicId e (\<lambda>r. JsonRejects ok thrown) mid token w) = Inl thrown) \<and>
      (if data = JUndefined \<or> data = JNull \<or> js_prop data ''code'' \<noteq> JNum 0
       then \<exists>msg. fst (validateMusicId e (\<lambda>r. Responds ok data) mid token w)
                    = Inr (invalidMusic mid msg)
       else if js_prop data ''data'' = JUndefined \<or> js_prop data ''data'' = JNull
       then \<exists>t. fst (validateMusicId e (\<lambda>r. Responds ok data) mid token w) = Inl t \<and>
                instanceof_TypeError t \<and> \<not> isApiError t
       else fst (validateMusicId e (\<lambda>r. Responds ok data) mid token w)
            = Inr (JObj PlainObject
                [(''valid'', JBool True), (''music_id'', JStr mid),
                 (''title'', js_prop (js_prop data ''data'') ''title''),
                 (''artist'', js_prop (js_prop data ''data'') ''artist'')])))"
proof (intro conjI impI)
  assume "API_MODE e = ''mock''"
  then show "fst (validateMusicId e net mid token w) = Inr (mockValidateMusicId mid)"
    by (simp add: validateMusicId_def)
next
  assume "mid \<notin> set MOCK_MUSIC_IDS"
  then show "mockValidateMusicId mid
             = invalidMusic mid (JStr ''Music ID not found in TikTok library'')"
    by (rule mock_not_found)
next
  assume real: "API_MODE e \<noteq> ''mock''"
  show "if isApiError thrown \<or> instanceof_TypeError thrown
       then (\<exists>msg. fst (validateMusicId e (\<lambda>r. FetchRejects thrown) mid token w)
                     = Inr (invalidMusic mid msg)) \<and>
            (\<exists>msg. fst (validateMusicId e (\<lambda>r. JsonRejects ok thrown) mid token w)
                     = Inr (invalidMusic mid msg))
       else fst (validateMusicId e (\<lambda>r. FetchRejects thrown) mid token w) = Inl thrown \<and>
            fst (validateMusicId e (\<lambda>r. JsonRejects ok thrown) mid token w) = Inl thrown"
    using validateMusicId_request_failure [OF real, of "FetchRejects thrown" thrown ok mid token w]
      validateMusicId_request_failure [OF real, of "JsonRejects ok thrown" thrown ok mid token w]
    by (simp split: if_splits)
next
  assume real: "API_MODE e \<noteq> ''mock''"
  show "if data = JUndefined \<or> data = JNull \<or> js_prop data ''code'' \<noteq> JNum 0
       then \<exists>msg. fst (validateMusicId e (\<lambda>r. Responds ok data) mid token w)
                    = Inr (invalidMusic mid msg)
       else if js_prop data ''data'' = JUndefined \<or> js_prop data ''data'' = JNull
       then \<exists>t. fst (validateMusicId e (\<lambda>r. Responds ok data) mid token w) = Inl t \<and>
                instanceof_TypeError t \<and> \<not> isApiError t
       else fst (validateMusicId e (\<lambda>r. Responds ok data) mid token w)
            = Inr (JObj PlainObject
                [(''valid'', JBool True), (''music_id'', JStr mid),
                 (''title'', js_prop (js_prop data ''data'') ''title''),
                 (''artist'', js_prop (js_prop data ''data'') ''artist'')])"
    by (rule validateMusicId_response [OF real])
qed


theorem validateMusicId_outcomes_witness:
  "API_MODE env_mock = ''mock'' \<and>
   ''0000000000'' \<notin> set MOCK_MUSIC_IDS \<and>
   fst (validateMusicId env_mock token_server ''0000000000'' ''tok'' world0)
     = Inr (invalidMusic ''0000000000'' (JStr ''Music ID not found in TikTok library'')) \<and>
   API_MODE env0 \<noteq> ''mock'' \<and>
   instanceof_TypeError (new_TypeError ''Failed to fetch'') \<and>
   (\<exists>msg. fst (validateMusicId env0 (\<lambda>r. FetchRejects (new_TypeError ''Failed to fetch''))
                 ''1234567890'' ''tok'' world0)
           = Inr (invalidMusic ''1234567890'' msg)) \<and>
   \<not> isApiError json_syntax_error \<and> \<not> instanceof_TypeError json_syntax_error \<and>
   fst (validateMusicId env0 (\<lambda>r. JsonRejects True json_syntax_error)
          ''1234567890'' ''tok'' world0) = Inl json_syntax_error \<and>
   js_prop not_found_body ''code'' \<noteq> JNum 0 \<and>
   (\<exists>msg. fst (validateMusicId env0 (\<lambda>r. Responds True not_found_body)
                 ''1234567890'' ''tok'' world0)
           = Inr (invalidMusic ''1234567890'' msg)) \<and>
   js_prop no_data_body ''code'' = JNum 0 \<and> js_prop no_data_body ''data'' = JUndefined \<and>
   (\<exists>t. fst (validateMusicId env0 (\<lambda>r. Responds True no_data_body)
               ''1234567890'' ''tok'' world0) = Inl t \<and>
        instanceof_TypeError t \<and> \<not> isApiError t) \<and>
   fst (validateMusicId env0 (\<lambda>r. Responds True found_body) ''1234567890'' ''tok'' world0)
     = Inr (JObj PlainObject
         [(''valid'', JBool True), (''music_id'', JStr ''1234567890''),
          (''title'', JStr ''Song''), (''artist'', JStr ''Band'')])"
proof -
  have mock: "API_MODE env_mock = ''mock''"
    by (simp add: API_MODE_def env_mock_def env0_def)
  have real: "API_MODE env0 \<noteq> ''mock''"
    by (simp add: API_MODE_def env0_def)
  have absent: "''0000000000'' \<notin> set MOCK_MUSIC_IDS"
    by (simp add: MOCK_MUSIC_IDS_def)
  have syn: "\<not> isApiError json_syntax_error" "\<not> instanceof_TypeError json_syntax_error"
    by (simp_all add: json_syntax_error_def isApiError_def)
  have nf: "js_prop not_found_body ''code'' \<noteq> JNum 0" "not_found_body \<noteq> JUndefined"
    "not_found_body \<noteq> JNull"
    by (simp_all add: not_found_body_def)
  have nd: "js_prop no_data_body ''code'' = JNum 0" "js_prop no_data_body ''data'' = JUndefined"
    "no_data_body \<noteq> JUndefined" "no_data_body \<noteq> JNull"
    by (simp_all add: no_data_body_def)
  have fd: "js_prop found_body ''code'' = JNum 0"
    "js_prop found_body ''data''
     = JObj PlainObject [(''title'', JStr ''Song''), (''artist'', JStr ''Band'')]"
    "found_body \<noteq> JUndefined" "found_body \<noteq> JNull"
    by (simp_all add: found_body_def)
  note a = validateMusicId_outcomes
    [where e = env_mock and net = token_server and mid = "''0000000000''" and token = "''tok''"
       and w = world0]
  note b = validateMusicId_outcomes
    [where e = env0 and mid = "''1234567890''" and token = "''tok''" and w = world0
       and thrown = "new_TypeError ''Failed to fetch''" and ok = True and data = not_found_body]
  note c = validateMusicId_outcomes
    [where e = env0 and mid = "''1234567890''" and token = "''tok''" and w = world0
       and thrown = json_syntax_error and ok = True and data = no_data_body]
  note d = validateMusicId_outcomes
    [where e = env0 and mid = "''1234567890''" and token = "''tok''" and w = world0
       and ok = True and data = found_body]
  show ?thesis
    using a b c d mock real absent syn nf nd fd by simp
qed

subsection \<open>The callback and the anti-forgery state\<close>

lemma sessionStorage_exchange [simp]:
  "sessionStorage (snd (exchangeCodeForTokens e net code w)) = sessionStorage w"
  by (simp add: exchangeCodeForTokens_def fetch_def Let_def)

lemma sessionStorage_storeTokens [simp]:
  "sessionStorage (storeTokens tokens w) = sessionStorage w"
  by (simp add: storeTokens_def)

lemma handleOAuthCallback_mismatch:
  "sessionStorage w ''oauth_state'' \<noteq> Some state \<Longrightarrow>
   handleOAuthCallback e net now code state w = (Inl csrfError, w)"
  by (auto simp add: handleOAuthCallback_def Let_def)

lemma handleOAuthCallback_match:
  assumes "sessionStorage w ''oauth_state'' = Some state"
  shows "sessionStorage (snd (handleOAuthCallback e net now code state w)) ''oauth_state'' = None"
proof -
  define w1 where "w1 = w\<lparr>sessionStorage := (sessionStorage w)(''oauth_state'' := None)\<rparr>"
  obtain exchanged w2 where ex: "exchangeCodeForTokens e net code w1 = (exchanged, w2)"
    by (cases "exchangeCodeForTokens e net code w1")
  have "sessionStorage w2 = sessionStorage w1"
    using sessionStorage_exchange [of e net code w1] ex by simp
  then have "sessionStorage w2 ''oauth_state'' = None"
    by (simp add: w1_def)
  then show ?thesis
    using assms ex
    by (cases exchanged) (simp_all add: handleOAuthCallback_def Let_def w1_def)
qed

lemma sessionStorage_initiate [simp]:
  "sessionStorage (initiateOAuthFlow e entropy w) ''oauth_state''
   = Some (generateRandomState entropy)"
  by (simp add: initiateOAuthFlow_def Let_def)

lemma length_generateRandomState: "length (generateRandomState entropy) = 64"
  by (simp add: generateRandomState_def Let_def length_concat comp_def sum_list_triv)

lemma wrong_neq_state: "''wrong'' \<noteq> generateRandomState entropy"
proof
  assume "''wrong'' = generateRandomState entropy"
  then have "length ''wrong'' = length (generateRandomState entropy)" by simp
  then show False by (simp add: length_generateRandomState)
qed

lemma after_wrong_state_eq: "after_wrong_state = issued_world"
proof -
  have "handleOAuthCallback env0 token_server 1700000000000 ''abc'' ''wrong'' issued_world
        = (Inl csrfError, issued_world)"
    by (rule handleOAuthCallback_mismatch) (simp add: issued_world_def wrong_neq_state [symmetric])
  then show ?thesis by (simp add: after_wrong_state_def)
qed

text \<open>
  C1, as stated, fails: a callback whose state does not match throws before
  \<open>removeItem\<close>, so the stored state survives it. After one \<open>initiateOAuthFlow\<close>, a first
  callback with the state \<open>wrong\<close> is rejected, the state is still stored, and a second
  callback with the issued state passes the check: its code is exchanged and the
  tokens are returned.
\<close>

theorem state_survives_mismatch_counterexample:
  "fst (handleOAuthCallback env0 token_server 1700000000000 ''abc'' ''wrong'' issued_world)
     = Inl csrfError \<and>
   sessionStorage after_wrong_state ''oauth_state'' = Some (generateRandomState entropy0) \<and>
   fst (handleOAuthCallback env0 token_server 1700000000000 ''abc''
          (generateRandomState entropy0) after_wrong_state)
     = Inr (JObj PlainObject
         [(''accessToken'', JStr ''tok''), (''expires_in'', JNum 86400),
          (''timestamp'', JNum 1700000000000)])"
proof -
  have a: "handleOAuthCallback env0 token_server 1700000000000 ''abc'' ''wrong'' issued_world
      = (Inl csrfError, issued_world)"
    by (rule handleOAuthCallback_mismatch) (simp add: issued_world_def wrong_neq_state [symmetric])
  have c: "sessionStorage issued_world ''oauth_state'' = Some (generateRandomState entropy0)"
    by (simp add: issued_world_def)
  have d: "fst (handleOAuthCallback env0 token_server 1700000000000 ''abc''
                  (generateRandomState entropy0) issued_world)
     = Inr (JObj PlainObject
         [(''accessToken'', JStr ''tok''), (''expires_in'', JNum 86400),
          (''timestamp'', JNum 1700000000000)])"
    using c
    by (simp add: handleOAuthCallback_def exchangeCodeForTokens_def fetch_def Let_def
        token_server_def get_member_def enumerable_def)
  show ?thesis using a c d by (simp add: after_wrong_state_eq)
qed

text \<open>
  C1, amended. The stored state is deleted by a callback whose state matches, and
  only by such a callback: after \<open>initiateOAuthFlow\<close> and one callback with the issued
  state, every further callback fails the check with the CSRF error and changes
  nothing, whether its state is the same or different; a callback with a state other
  than the issued one fails the check and leaves the stored state in place.
\<close>

theorem state_consumed_only_on_match:
  fixes e :: env and entropy :: "nat \<Rightarrow> nat" and w0 :: world
    and net :: network and now :: int and code :: string
  defines "w1 \<equiv> initiateOAuthFlow e entropy w0"
  defines "w2 \<equiv> snd (handleOAuthCallback e net now code (generateRandomState entropy) w1)"
  shows "handleOAuthCallback e net' now' code' state' w2 = (Inl csrfError, w2) \<and>
         (state1 \<noteq> generateRandomState entropy \<longrightarrow>
            handleOAuthCallback e net now code state1 w1 = (Inl csrfError, w1))"
  unfolding w1_def w2_def
  by (simp add: handleOAuthCallback_mismatch handleOAuthCallback_match)

theorem state_consumed_only_on_match_witness:
  "''wrong'' \<noteq> generateRandomState entropy0 \<and>
   handleOAuthCallback env0 token_server 1700000000000 ''abc'' ''wrong'' issued_world
     = (Inl csrfError, issued_world) \<and>
   handleOAuthCallback env0 token_server 1700000000500 ''abc'' (generateRandomState entropy0)
       (snd (handleOAuthCallback env0 token_server 1700000000000 ''abc''
               (generateRandomState entropy0) issued_world))
     = (Inl csrfError,
        snd (handleOAuthCallback env0 token_server 1700000000000 ''abc''
               (generateRandomState entropy0) issued_world))"
  using state_consumed_only_on_match
    [of env0 token_server 1700000000500 "''abc''" "generateRandomState entropy0"
        token_server 1700000000000 "''abc''" entropy0 world0 "''wrong''"]
    wrong_neq_state [of entropy0]
  by (simp add: issued_world_def)

text \<open>
  C2. When the presented state is not the stored one (or none is stored), the
  callback fails with the CSRF error and leaves the browser state as it was: no
  request has been sent, so no token exchange was attempted, and nothing was stored.
\<close>

theorem csrf_mismatch_fails_before_exchange:
  assumes "sessionStorage w ''oauth_state'' \<noteq> Some state"
  shows "fst (handleOAuthCallback e net now code state w) = Inl csrfError \<and>
         requests (snd (handleOAuthCallback e net now code state w)) = requests w \<and>
         localStorage (snd (handleOAuthCallback e net now code state w)) = localStorage w"
  using handleOAuthCallback_mismatch [OF assms] by simp

theorem csrf_mismatch_fails_before_exchange_witness:
  "sessionStorage issued_world ''oauth_state'' \<noteq> Some ''wrong'' \<and>
   fst (handleOAuthCallback env0 token_server 1700000000000 ''abc'' ''wrong'' issued_world)
     = Inl csrfError \<and>
   requests (snd (handleOAuthCallback env0 token_server 1700000000000 ''abc'' ''wrong''
                    issued_world)) = [] \<and>
   localStorage (snd (handleOAuthCallback env0 token_server 1700000000000 ''abc'' ''wrong''
                        issued_world)) ''tiktok_tokens'' = None"
proof -
  have h: "sessionStorage issued_world ''oauth_state'' \<noteq> Some ''wrong''"
    by (simp add: issued_world_def wrong_neq_state [symmetric])
  have r: "requests issued_world = []" "localStorage issued_world ''tiktok_tokens'' = None"
    by (simp_all add: issued_world_def initiateOAuthFlow_def Let_def world0_def)
  show ?thesis
    using csrf_mismatch_fails_before_exchange
      [OF h, of env0 token_server 1700000000000 "''abc''"] h r
    by simp
qed

subsection \<open>The JSON parser never runs out of fuel\<close>

text \<open>
  Every parser returns a remainder shorter than its input, and every recursive call
  follows at most one other call on the same input; so the fuel \<open>JSON_parse\<close> starts
  with is never used up, and \<open>OutOfFuel\<close> is not a result of \<open>JSON_parse\<close>.
\<close>

lemma length_skip_ws: "length (skip_ws s) \<le> length s"
  by (simp add: skip_ws_def length_dropWhile_le)

lemma cons_char_Inr:
  "cons_char c r = Inr (s, rest) \<Longrightarrow> \<exists>s'. r = Inr (s', rest)"
  by (auto simp: cons_char_def split: sum.splits)

lemma parse_string_body_shorter:
  "parse_string_body s = Inr (str, rest) \<Longrightarrow> length rest < length s"
proof (induction "length s" arbitrary: s str rest rule: less_induct)
  case less
  have ih: "\<And>t s' r. parse_string_body t = Inr (s', r) \<Longrightarrow> length t < length s \<Longrightarrow>
                length r < length s"
    using less.hyps by fastforce
  show ?case
  proof (cases s)
    case Nil
    with less.prems show ?thesis by simp
  next
    case (Cons c cs)
    with less.prems show ?thesis
      apply (auto split: if_splits list.splits option.splits dest!: cons_char_Inr)
        apply (drule less.hyps [rotated], simp, simp)+
      done
  qed
qed


lemma parse_unsigned_shorter:
  assumes "parse_unsigned negative s = Inr (v, rest)"
  shows "length rest < length s"
proof -
  have len: "length s = length (takeWhile is_digit s) + length (dropWhile is_digit s)"
    by (metis length_append takeWhile_dropWhile_id)
  from assms have "takeWhile is_digit s \<noteq> []" and "rest = dropWhile is_digit s"
    by (auto simp: parse_unsigned_def Let_def split: list.splits if_splits)
  with len show ?thesis by (cases "takeWhile is_digit s") simp_all
qed

lemma parse_number_shorter:
  "parse_number s = Inr (v, rest) \<Longrightarrow> length rest < length s"
  by (auto simp: parse_number_def split: list.splits if_splits
      dest!: parse_unsigned_shorter)

lemma starts_with_length: "starts_with s p \<Longrightarrow> length p \<le> length s"
  by (induction s p rule: starts_with.induct) auto

lemma skip_ws_Cons_length: "skip_ws s = c # cs \<Longrightarrow> length cs < length s"
  using length_skip_ws [of s] by simp

lemma parsers_shorter:
  "(\<forall>s v rest. parse_value n s = Inr (v, rest) \<longrightarrow> length rest < length s) \<and>
   (\<forall>acc s v rest. parse_elements n acc s = Inr (v, rest) \<longrightarrow> length rest < length s) \<and>
   (\<forall>acc s v rest. parse_members n acc s = Inr (v, rest) \<longrightarrow> length rest < length s)"
proof (induction n)
  case 0
  show ?case by simp
next
  case (Suc n)
  then have ihv: "\<And>s v rest. parse_value n s = Inr (v, rest) \<Longrightarrow> length rest < length s"
    and ihe: "\<And>acc s v rest. parse_elements n acc s = Inr (v, rest) \<Longrightarrow> length rest < length s"
    and ihm: "\<And>acc s v rest. parse_members n acc s = Inr (v, rest) \<Longrightarrow> length rest < length s"
    by blast+
  have v: "length rest < length s" if "parse_value (Suc n) s = Inr (v, rest)" for s v rest
  proof (cases "skip_ws s")
    case Nil
    with that show ?thesis by simp
  next
    case (Cons c cs)
    note len = skip_ws_Cons_length [OF Cons]
    from that Cons consider
        (str) str where "parse_string_body cs = Inr (str, rest)"
      | (arr0) d where "skip_ws cs = d # rest"
      | (arr) "parse_elements n [] cs = Inr (v, rest)"
      | (obj) "parse_members n [] cs = Inr (v, rest)"
      | (num) "parse_number (c # cs) = Inr (v, rest)"
      | (lit) "length rest \<le> length cs"
      by (auto split: if_splits sum.splits list.splits)
    then show ?thesis
    proof cases
      case str
      then show ?thesis using parse_string_body_shorter len by fastforce
    next
      case arr0
      then show ?thesis using skip_ws_Cons_length len by fastforce
    next
      case arr
      then show ?thesis using ihe len by fastforce
    next
      case obj
      then show ?thesis using ihm len by fastforce
    next
      case num
      then show ?thesis using parse_number_shorter [OF num] length_skip_ws [of s] Cons by simp
    next
      case lit
      then show ?thesis using len by simp
    qed
  qed
  have e: "length rest < length s" if "parse_elements (Suc n) acc s = Inr (v, rest)"
    for acc s v rest
  proof -
    from that obtain x r c cs where x: "parse_value n s = Inr (x, r)" and r: "skip_ws r = c # cs"
      and alt: "parse_elements n (acc @ [x]) cs = Inr (v, rest) \<or> rest = cs"
      by (auto split: sum.splits list.splits if_splits)
    have "length cs < length s"
      using ihv [OF x] skip_ws_Cons_length [OF r] by simp
    with alt ihe show ?thesis by fastforce
  qed
  have m: "length rest < length s" if "parse_members (Suc n) acc s = Inr (v, rest)"
    for acc s v rest
  proof -
    from that obtain q cs key r colon cs1 x r1 c cs2 where
      s: "skip_ws s = q # cs" and k: "parse_string_body cs = Inr (key, r)"
      and r: "skip_ws r = colon # cs1" and x: "parse_value n cs1 = Inr (x, r1)"
      and r1: "skip_ws r1 = c # cs2"
      and alt: "parse_members n (AList.update key x acc) cs2 = Inr (v, rest) \<or> rest = cs2"
      by (auto split: sum.splits list.splits if_splits)
    have "length cs2 < length s"
      using skip_ws_Cons_length [OF s] parse_string_body_shorter [OF k]
        skip_ws_Cons_length [OF r] ihv [OF x] skip_ws_Cons_length [OF r1] by simp
    with alt ihm show ?thesis by fastforce
  qed
  from v e m show ?case by blast
qed


lemma cons_char_fuel: "cons_char c r = Inl OutOfFuel \<Longrightarrow> r = Inl OutOfFuel"
  by (auto simp: cons_char_def split: sum.splits)

lemma parse_string_body_fuel_aux: "parse_string_body s = Inl OutOfFuel \<Longrightarrow> False"
proof (induction "length s" arbitrary: s rule: less_induct)
  case less
  show ?case
  proof (cases s)
    case Nil
    with less.prems show ?thesis by simp
  next
    case (Cons c cs)
    with less.prems show ?thesis
      apply (auto split: if_splits list.splits option.splits dest!: cons_char_fuel)
        apply (drule less.hyps [rotated], simp, simp)+
      done
  qed
qed

lemma parse_string_body_fuel: "parse_string_body s \<noteq> Inl OutOfFuel"
  using parse_string_body_fuel_aux by blast

lemma parse_number_fuel: "parse_number s \<noteq> Inl OutOfFuel"
  by (auto simp: parse_number_def parse_unsigned_def Let_def split: list.splits if_splits)


lemma parsers_enough_fuel:
  "(\<forall>s. 2 * length s < n \<longrightarrow> parse_value n s \<noteq> Inl OutOfFuel) \<and>
   (\<forall>acc s. 2 * length s + 1 < n \<longrightarrow> parse_elements n acc s \<noteq> Inl OutOfFuel) \<and>
   (\<forall>acc s. 2 * length s + 1 < n \<longrightarrow> parse_members n acc s \<noteq> Inl OutOfFuel)"
proof (induction n)
  case 0
  show ?case by simp
next
  case (Suc n)
  then have ihv: "\<And>s. 2 * length s < n \<Longrightarrow> parse_value n s \<noteq> Inl OutOfFuel"
    and ihe: "\<And>acc s. 2 * length s + 1 < n \<Longrightarrow> parse_elements n acc s \<noteq> Inl OutOfFuel"
    and ihm: "\<And>acc s. 2 * length s + 1 < n \<Longrightarrow> parse_members n acc s \<noteq> Inl OutOfFuel"
    by blast+
  note shorter = parsers_shorter [of n, THEN conjunct1, rule_format]
  have v: "parse_value (Suc n) s \<noteq> Inl OutOfFuel" if fuel: "2 * length s < Suc n" for s
  proof (cases "skip_ws s")
    case Nil
    then show ?thesis by simp
  next
    case (Cons c cs)
    have "2 * length cs + 1 < n"
      using skip_ws_Cons_length [OF Cons] fuel by simp
    then have "parse_elements n [] cs \<noteq> Inl OutOfFuel" "parse_members n [] cs \<noteq> Inl OutOfFuel"
      using ihe ihm by blast+
    then show ?thesis
      using parse_string_body_fuel [of cs] parse_number_fuel [of "c # cs"]
      by (auto simp: Cons split: sum.splits list.splits)
  qed
  have e: "parse_elements (Suc n) acc s \<noteq> Inl OutOfFuel" if fuel: "2 * length s + 1 < Suc n"
    for acc s
  proof (cases "parse_value n s")
    case (Inl f)
    have "f \<noteq> OutOfFuel" using ihv [of s] fuel Inl by auto
    with Inl show ?thesis by simp
  next
    case (Inr p)
    obtain x r where p: "p = (x, r)" by (cases p)
    show ?thesis
    proof (cases "skip_ws r")
      case Nil
      with Inr p show ?thesis by simp
    next
      case (Cons c cs)
      have "2 * length cs + 1 < n"
        using shorter [of s x r] Inr p skip_ws_Cons_length [OF Cons] fuel by simp
      then have "parse_elements n (acc @ [x]) cs \<noteq> Inl OutOfFuel"
        using ihe by blast
      with Inr p Cons show ?thesis by simp
    qed
  qed
  have m: "parse_members (Suc n) acc s \<noteq> Inl OutOfFuel" if fuel: "2 * length s + 1 < Suc n"
    for acc s
  proof
    assume out: "parse_members (Suc n) acc s = Inl OutOfFuel"
    then obtain q cs where s: "skip_ws s = q # cs" and q: "q = CHR 0x22"
      by (auto split: list.splits if_splits)
    from out s q parse_string_body_fuel [of cs] obtain key r where
      k: "parse_string_body cs = Inr (key, r)"
      by (cases "parse_string_body cs") auto
    from out s q k obtain colon cs1 where r: "skip_ws r = colon # cs1" and c: "colon = CHR '':''"
      by (auto split: list.splits if_splits)
    have l1: "length cs1 < length s"
      using skip_ws_Cons_length [OF s] parse_string_body_shorter [OF k]
        skip_ws_Cons_length [OF r] by simp
    then have "parse_value n cs1 \<noteq> Inl OutOfFuel"
      using ihv [of cs1] fuel by simp
    with out s q k r c obtain x r1 where x: "parse_value n cs1 = Inr (x, r1)"
      by (cases "parse_value n cs1") auto
    from out s q k r c x obtain d cs2 where r1: "skip_ws r1 = d # cs2"
      and rec: "parse_members n (AList.update key x acc) cs2 = Inl OutOfFuel"
      by (auto split: list.splits if_splits)
    have "2 * length cs2 + 1 < n"
      using l1 shorter [OF x] skip_ws_Cons_length [OF r1] fuel by simp
    with ihm rec show False by blast
  qed
  from v e m show ?case by blast
qed

lemma JSON_parse_fuel: "JSON_parse s \<noteq> Inl OutOfFuel"
proof -
  have "parse_value (2 * length s + 2) s \<noteq> Inl OutOfFuel"
    using parsers_enough_fuel [of "2 * length s + 2"] by simp
  then show ?thesis
    by (auto simp: JSON_parse_def split: sum.splits if_splits)
qed

subsection \<open>The credential store\<close>



lemma hex_value_hex_digit: "n < 16 \<Longrightarrow> hex_value (hex_digit n) = Some n"
  by (auto simp: hex_digit_def hex_value_def less_Suc_eq eval_nat_numeral)

lemma char_eq_of_code: "(of_char c :: nat) = of_char d \<Longrightarrow> c = d"
  by (simp only: of_char_eq_iff)

lemma parse_control_escape:
  assumes "(of_char c :: nat) < 32"
  shows "parse_string_body
           ([CHR 0x5C, CHR ''u'', CHR ''0'', CHR ''0'',
             hex_digit (of_char c div 16), hex_digit (of_char c mod 16)] @ tail)
         = cons_char c (parse_string_body tail)"
proof -
  let ?n = "of_char c :: nat"
  have h3: "hex_value (hex_digit (?n div 16)) = Some (?n div 16)"
    using assms by (intro hex_value_hex_digit) simp
  have h4: "hex_value (hex_digit (?n mod 16)) = Some (?n mod 16)"
    by (intro hex_value_hex_digit) simp
  have h0: "hex_value (CHR ''0'') = Some 0"
    by (simp add: hex_value_def)
  have c: "char_of (16 * (?n div 16) + ?n mod 16) = c"
    by simp
  show ?thesis
    by (simp add: h0 h3 h4 c)
qed

lemma parse_escaped_char:
  "parse_string_body (json_escape_char c @ tail) = cons_char c (parse_string_body tail)"
proof -
  let ?n = "of_char c :: nat"
  consider "?n = 34" | "?n = 92" | "?n = 8" | "?n = 12" | "?n = 10" | "?n = 13" | "?n = 9"
    | "?n < 32" "?n \<notin> {8, 12, 10, 13, 9}" | "\<not> ?n < 32" "?n \<noteq> 34" "?n \<noteq> 92"
    by auto
  then show ?thesis
  proof cases
    case 1
    then have "c = CHR 0x22" by (intro char_eq_of_code) simp
    then show ?thesis by (simp add: json_escape_char_def unescape_def)
  next
    case 2
    then have "c = CHR 0x5C" by (intro char_eq_of_code) simp
    then show ?thesis by (simp add: json_escape_char_def unescape_def)
  next
    case 3
    then have "c = CHR 0x08" by (intro char_eq_of_code) simp
    then show ?thesis by (simp add: json_escape_char_def unescape_def)
  next
    case 4
    then have "c = CHR 0x0C" by (intro char_eq_of_code) simp
    then show ?thesis by (simp add: json_escape_char_def unescape_def)
  next
    case 5
    then have "c = CHR 0x0A" by (intro char_eq_of_code) simp
    then show ?thesis by (simp add: json_escape_char_def unescape_def)
  next
    case 6
    then have "c = CHR 0x0D" by (intro char_eq_of_code) simp
    then show ?thesis by (simp add: json_escape_char_def unescape_def)
  next
    case 7
    then have "c = CHR 0x09" by (intro char_eq_of_code) simp
    then show ?thesis by (simp add: json_escape_char_def unescape_def)
  next
    case 8
    then have e: "json_escape_char c =
        [CHR 0x5C, CHR ''u'', CHR ''0'', CHR ''0'', hex_digit (?n div 16), hex_digit (?n mod 16)]"
      by (auto simp: json_escape_char_def Let_def)
    show ?thesis unfolding e using parse_control_escape [OF 8(1)] .
  next
    case 9
    then have e: "json_escape_char c = [c]"
      by (auto simp: json_escape_char_def Let_def)
    have "c \<noteq> CHR 0x22" "c \<noteq> CHR 0x5C" using 9 by auto
    then show ?thesis unfolding e using 9(1) by simp
  qed
qed

lemma parse_string_body_escaped:
  "parse_string_body (concat (map json_escape_char s) @ CHR 0x22 # rest) = Inr (s, rest)"
  by (induction s) (simp_all add: parse_escaped_char cons_char_def)


lemma digit_char_props:
  assumes "d < 10"
  shows "is_digit (digit_char d)" and "digit_value (digit_char d) = d"
    and "digit_char d = CHR ''0'' \<longleftrightarrow> d = 0"
  using assms
  by (auto simp: digit_char_def is_digit_def digit_value_def less_Suc_eq eval_nat_numeral)

lemma show_nat_digits: "list_all is_digit (show_nat n)"
proof (induction n rule: show_nat.induct)
  case (1 n)
  show ?case
  proof (cases "n < 10")
    case True
    then show ?thesis by (subst show_nat.simps) (simp add: digit_char_props)
  next
    case False
    with 1 show ?thesis by (subst show_nat.simps) (simp add: digit_char_props)
  qed
qed

lemma show_nat_nonempty: "show_nat n \<noteq> []"
  by (subst show_nat.simps) simp

lemma read_nat_snoc: "read_nat (ds @ [c]) = 10 * read_nat ds + digit_value c"
  by (simp add: read_nat_def)

lemma read_nat_show_nat: "read_nat (show_nat n) = n"
proof (induction n rule: show_nat.induct)
  case (1 n)
  show ?case
  proof (cases "n < 10")
    case True
    then show ?thesis
      by (subst show_nat.simps) (simp add: read_nat_def digit_char_props)
  next
    case False
    with 1 show ?thesis
      by (subst show_nat.simps) (simp add: read_nat_snoc digit_char_props)
  qed
qed

lemma show_nat_leading_zero:
  "show_nat n = CHR ''0'' # ds \<Longrightarrow> ds = []"
proof (induction n arbitrary: ds rule: show_nat.induct)
  case (1 n)
  show ?case
  proof (cases "n < 10")
    case True
    with 1(2) show ?thesis by (subst (asm) show_nat.simps) simp
  next
    case False
    obtain e es where es: "show_nat (n div 10) = e # es"
      using show_nat_nonempty [of "n div 10"] by (cases "show_nat (n div 10)") auto
    from 1(2) False have "e = CHR ''0''"
      by (subst (asm) show_nat.simps) (simp add: es)
    with 1(1) [OF False] es have "es = []" by simp
    with es \<open>e = CHR ''0''\<close> have "show_nat (n div 10) = [CHR ''0'']" by simp
    then have "read_nat (show_nat (n div 10)) = 0"
      by (simp add: read_nat_def digit_value_def)
    then have "n div 10 = 0" by (simp add: read_nat_show_nat)
    with False show ?thesis by simp
  qed
qed

lemma takeWhile_digits:
  assumes "ends_number rest"
  shows "takeWhile is_digit (show_nat n @ rest) = show_nat n"
    and "dropWhile is_digit (show_nat n @ rest) = rest"
proof -
  have all: "\<And>x. x \<in> set (show_nat n) \<Longrightarrow> is_digit x"
    using show_nat_digits [of n] by (simp add: list_all_iff)
  have t: "takeWhile is_digit rest = []" and d: "dropWhile is_digit rest = rest"
    using assms by (cases rest; simp add: ends_number_def)+
  show "takeWhile is_digit (show_nat n @ rest) = show_nat n"
    using all by (simp add: takeWhile_append2 t)
  show "dropWhile is_digit (show_nat n @ rest) = rest"
    using all by (simp add: dropWhile_append2 d)
qed

lemma parse_unsigned_show_nat:
  assumes "ends_number rest"
  shows "parse_unsigned negative (show_nat n @ rest)
         = Inr (JNum (if negative then - int n else int n), rest)"
proof -
  obtain d ds where dds: "show_nat n = d # ds"
    using show_nat_nonempty [of n] by (cases "show_nat n") auto
  have lead: "\<not> (d = CHR ''0'' \<and> ds \<noteq> [])"
    using show_nat_leading_zero [of n ds] dds by auto
  have cont: "\<not> (case rest of [] \<Rightarrow> False
      | c # _ \<Rightarrow> c = CHR ''.'' \<or> c = CHR ''e'' \<or> c = CHR ''E'')"
    using assms by (cases rest) (auto simp: ends_number_def)
  have rn: "read_nat (d # ds) = n"
    using read_nat_show_nat [of n] dds by simp
  show ?thesis
    unfolding parse_unsigned_def takeWhile_digits [OF assms] Let_def
    using lead cont rn by (simp add: dds)
qed

lemma show_nat_head_digit:
  "\<exists>d ds. show_nat n = d # ds \<and> is_digit d"
  using show_nat_nonempty [of n] show_nat_digits [of n]
  by (cases "show_nat n") auto

lemma is_digit_not_minus: "is_digit d \<Longrightarrow> d \<noteq> CHR ''-''"
  by (auto simp: is_digit_def)

lemma parse_number_show_int:
  assumes "ends_number rest"
  shows "parse_number (show_int i @ rest) = Inr (JNum i, rest)"
proof (cases "i < 0")
  case True
  then show ?thesis
    by (simp add: show_int_def parse_number_def parse_unsigned_show_nat [OF assms])
next
  case False
  obtain d ds where dds: "show_nat (nat i) = d # ds" and dig: "is_digit d"
    using show_nat_head_digit by blast
  have "parse_number (show_nat (nat i) @ rest) = parse_unsigned False (show_nat (nat i) @ rest)"
    using is_digit_not_minus [OF dig] by (simp add: parse_number_def dds)
  with False show ?thesis
    by (simp add: show_int_def parse_unsigned_show_nat [OF assms])
qed


lemma ends_value_ends_number: "ends_value rest \<Longrightarrow> ends_number rest"
  by (cases rest) (auto simp: ends_value_def ends_number_def is_digit_def)

lemma skip_ws_quote [simp]: "skip_ws (CHR 0x22 # s) = CHR 0x22 # s"
  by (simp add: skip_ws_def is_json_ws_def)

lemma skip_ws_punct [simp]:
  "skip_ws (CHR '','' # s) = CHR '','' # s"
  "skip_ws (CHR ''}'' # s) = CHR ''}'' # s"
  "skip_ws (CHR '':'' # s) = CHR '':'' # s"
  "skip_ws (CHR ''{'' # s) = CHR ''{'' # s"
  by (simp_all add: skip_ws_def is_json_ws_def)

lemma skip_ws_digit: "is_digit c \<or> c = CHR ''-'' \<Longrightarrow> skip_ws (c # s) = c # s"
  by (auto simp: skip_ws_def is_json_ws_def is_digit_def)

lemma parse_value_string:
  "parse_value (Suc n) (json_quote s @ rest) = Inr (JStr s, rest)"
  by (simp add: json_quote_def parse_string_body_escaped)

lemma show_int_head:
  "\<exists>c cs. show_int i = c # cs \<and> (c = CHR ''-'' \<or> is_digit c)"
  using show_nat_head_digit [of "nat i"] by (auto simp: show_int_def)

lemma digit_not_special:
  assumes "c = CHR ''-'' \<or> is_digit c"
  shows "c \<noteq> CHR 0x22" "c \<noteq> CHR ''[''" "c \<noteq> CHR ''{''"
  using assms by (auto simp: is_digit_def)

lemma parse_value_number:
  assumes "ends_number rest"
  shows "parse_value (Suc n) (show_int i @ rest) = Inr (JNum i, rest)"
proof -
  obtain c cs where ccs: "show_int i = c # cs" and c: "c = CHR ''-'' \<or> is_digit c"
    using show_int_head by blast
  have sk: "skip_ws (c # cs @ rest) = c # cs @ rest"
    using c skip_ws_digit [of c] by auto
  have "parse_value (Suc n) (c # cs @ rest) = parse_number (c # cs @ rest)"
    using c digit_not_special [OF c] by (auto simp: sk)
  then show ?thesis
    using parse_number_show_int [OF assms, of i] by (simp add: ccs)
qed

lemma parse_value_flat:
  assumes "flat_value v" and "ends_value rest"
  shows "parse_value (Suc n) (value_text v @ rest) = Inr (v, rest)"
  using assms
  by (cases v)
     (simp_all add: flat_value_def value_text_def parse_value_string parse_value_number
        ends_value_ends_number del: parse_value.simps)

lemma update_fresh:
  "k \<notin> fst ` set acc \<Longrightarrow> AList.update k v acc = acc @ [(k, v)]"
  by (induction acc) auto

lemma skip_ws_ends_value: "ends_value tail \<Longrightarrow> skip_ws tail = tail"
  by (cases tail) (auto simp: ends_value_def)

lemma parse_members_step:
  assumes "flat_value v" and "k \<notin> fst ` set acc" and "ends_value (c # cs)"
  shows "parse_members (Suc (Suc m)) acc (member_text (k, v) @ c # cs)
         = (if c = CHR '','' then parse_members (Suc m) (acc @ [(k, v)]) cs
            else Inr (JObj PlainObject (acc @ [(k, v)]), cs))"
proof -
  have pv: "parse_value (Suc m) (value_text v @ c # cs) = Inr (v, c # cs)"
    using parse_value_flat [OF assms(1,3)] .
  have sk: "skip_ws (c # cs) = c # cs"
    using skip_ws_ends_value [OF assms(3)] .
  have c: "c = CHR '','' \<or> c = CHR ''}''"
    using assms(3) by (simp add: ends_value_def)
  have "parse_members (Suc (Suc m)) acc
          (CHR 0x22 # concat (map json_escape_char k) @ CHR 0x22 # CHR '':'' # value_text v @ c # cs)
        = (if c = CHR '','' then parse_members (Suc m) (acc @ [(k, v)]) cs
            else Inr (JObj PlainObject (acc @ [(k, v)]), cs))"
    apply (subst parse_members.simps)
    apply (simp only: skip_ws_quote list.case if_False not_not refl if_True)
    apply (simp only: parse_string_body_escaped sum.case prod.case skip_ws_punct list.case
        refl not_not if_False pv sk update_fresh [OF assms(2)])
    using c apply auto
    done
  then show ?thesis
    by (simp add: member_text_def json_quote_def)
qed

lemma parse_members_flat:
  assumes "list_all (\<lambda>m. flat_value (snd m)) fs" and "fs \<noteq> []"
    and "distinct (map fst (acc @ fs))" and "length fs \<le> n"
  shows "parse_members (Suc n) acc (join_with '','' (map member_text fs) @ CHR ''}'' # rest)
         = Inr (JObj PlainObject (acc @ fs), rest)"
  using assms
proof (induction fs arbitrary: acc n)
  case Nil
  then show ?case by simp
next
  case (Cons f fs)
  obtain k v where f: "f = (k, v)" by (cases f)
  from Cons.prems have flat: "flat_value v" and fresh: "k \<notin> fst ` set acc"
    by (auto simp: f)
  from Cons.prems obtain m where n: "n = Suc m" and m: "length fs \<le> m"
    by (cases n) auto
  show ?case
  proof (cases fs)
    case Nil
    have ev: "ends_value (CHR ''}'' # rest)" by (simp add: ends_value_def)
    show ?thesis
      unfolding Nil f n
      using parse_members_step [OF flat fresh ev, of m] by simp
  next
    case (Cons g gs)
    let ?more = "join_with '','' (map member_text (g # gs)) @ CHR ''}'' # rest"
    have ev: "ends_value (CHR '','' # ?more)" by (simp add: ends_value_def)
    have ih: "parse_members (Suc m) (acc @ [(k, v)]) ?more
              = Inr (JObj PlainObject ((acc @ [(k, v)]) @ g # gs), rest)"
      using Cons.IH [of "acc @ [(k, v)]" m] Cons.prems m
      by (simp add: Cons f)
    have "parse_members (Suc (Suc m)) acc (member_text (k, v) @ CHR '','' # ?more)
          = Inr (JObj PlainObject (acc @ (k, v) # g # gs), rest)"
      using parse_members_step [OF flat fresh ev, of m] ih by simp
    then show ?thesis
      unfolding Cons f n by simp
  qed
qed


lemma JSON_stringify_flat_value:
  "flat_value v \<Longrightarrow> JSON_stringify v = Some (value_text v)"
  by (cases v) (simp_all add: flat_value_def value_text_def)

lemma stringify_members_flat:
  "list_all (\<lambda>m. flat_value (snd m)) fs \<Longrightarrow>
   concat (map (\<lambda>(k, v).
       if enumerable PlainObject k
       then (case JSON_stringify v of None \<Rightarrow> [] | Some t \<Rightarrow> [json_quote k @ '':'' @ t])
       else []) fs) = map member_text fs"
  by (induction fs)
     (auto simp: enumerable_def member_text_def JSON_stringify_flat_value)

lemma JSON_stringify_flat_object:
  assumes "list_all (\<lambda>m. flat_value (snd m)) fs"
  shows "JSON_stringify (JObj PlainObject fs)
         = Some (CHR ''{'' # join_with '','' (map member_text fs) @ ''}'')"
  using stringify_members_flat [OF assms] by simp

lemma length_members_text:
  "length fs \<le> length (join_with '','' (map member_text fs))"
proof (induction fs rule: induct_list012)
  case 1
  show ?case by simp
next
  case (2 f)
  show ?case by (simp add: member_text_def json_quote_def)
next
  case (3 f g gs)
  then show ?case by (simp add: member_text_def json_quote_def)
qed

lemma members_text_head:
  assumes "fs \<noteq> []"
  shows "\<exists>t. join_with '','' (map member_text fs) = CHR 0x22 # t"
proof (cases fs)
  case Nil
  with assms show ?thesis by simp
next
  case (Cons f gs)
  then show ?thesis
    by (cases gs) (simp_all add: member_text_def json_quote_def)
qed

lemma JSON_parse_flat_object:
  assumes "list_all (\<lambda>m. flat_value (snd m)) fs" and "fs \<noteq> []" and "distinct (map fst fs)"
  shows "JSON_parse (CHR ''{'' # join_with '','' (map member_text fs) @ ''}'')
         = Inr (JObj PlainObject fs)"
proof -
  let ?ms = "join_with '','' (map member_text fs)"
  let ?s = "CHR ''{'' # ?ms @ ''}''"
  obtain t where t: "?ms = CHR 0x22 # t"
    using members_text_head [OF assms(2)] by blast
  obtain m where fuel: "2 * length ?s + 2 = Suc (Suc m)" and m: "length fs \<le> m"
    using length_members_text [of fs] by (intro that [of "2 * length ?s"]) simp_all
  have pm: "parse_members (Suc m) [] (?ms @ CHR ''}'' # []) = Inr (JObj PlainObject fs, [])"
    using parse_members_flat [OF assms(1,2) _ m, of "[]" "[]"] assms(3) by simp
  have "parse_value (Suc (Suc m)) ?s = Inr (JObj PlainObject fs, [])"
    apply (subst parse_value.simps)
    apply (simp only: skip_ws_punct list.case)
    apply (simp add: t del: parse_members.simps)
    using pm apply (simp add: t del: parse_members.simps)
    done
  then show ?thesis
    unfolding JSON_parse_def fuel by (simp add: skip_ws_def)
qed

lemma tokens_object_fields:
  "\<exists>fs. tokens_object t = JObj PlainObject fs \<and> list_all (\<lambda>m. flat_value (snd m)) fs \<and>
        fs \<noteq> [] \<and> distinct (map fst fs)"
  by (cases "refreshToken t"; cases "advertiser_id t")
     (simp_all add: tokens_object_def flat_value_def)

lemma JSON_roundtrip_tokens:
  "JSON_parse (stringified (tokens_object t)) = Inr (tokens_object t)"
proof -
  obtain fs where fs: "tokens_object t = JObj PlainObject fs"
    and flat: "list_all (\<lambda>m. flat_value (snd m)) fs" and ne: "fs \<noteq> []"
    and dist: "distinct (map fst fs)"
    using tokens_object_fields by blast
  show ?thesis
    unfolding fs stringified_def JSON_stringify_flat_object [OF flat]
    using JSON_parse_flat_object [OF flat ne dist] by simp
qed

lemma stringified_tokens_nonempty: "stringified (tokens_object t) \<noteq> []"
proof -
  obtain fs where fs: "tokens_object t = JObj PlainObject fs"
    using tokens_object_fields by blast
  show ?thesis unfolding fs stringified_def by simp
qed

lemma as_OAuthTokens_tokens_object: "as_OAuthTokens (tokens_object t) = Decoded (Some t)"
  by (cases "refreshToken t"; cases "advertiser_id t")
     (simp_all add: tokens_object_def as_OAuthTokens_def optional_string_def)

text \<open>
  C10. When the slot holds a text on which \<open>JSON.parse\<close> throws its SyntaxError,
  \<open>getStoredTokens\<close> returns \<open>null\<close> and leaves the storage as it is; the caller sees the
  same result as with an empty slot.
\<close>

theorem getStoredTokens_corrupt_entry_is_null:
  assumes "localStorage w ''tiktok_tokens'' = Some stored" and "JSON_parse stored = Inl SyntaxErr"
  shows "getStoredTokens now w = (Modelled JNull, w) \<and>
         fst (getStoredTokens now w) = fst (getStoredTokens now (clearTokens w))"
  using assms by (simp add: getStoredTokens_def clearTokens_def)

theorem getStoredTokens_corrupt_entry_is_null_witness:
  "localStorage corrupt_world ''tiktok_tokens'' = Some ''{not json'' \<and>
   JSON_parse ''{not json'' = Inl SyntaxErr \<and>
   getStoredTokens 1700000000000 corrupt_world = (Modelled JNull, corrupt_world) \<and>
   fst (getStoredTokens 1700000000000 (clearTokens corrupt_world)) = Modelled JNull"
proof -
  have a: "localStorage corrupt_world ''tiktok_tokens'' = Some ''{not json''"
    by (simp add: corrupt_world_def)
  have b: "JSON_parse ''{not json'' = Inl SyntaxErr"
    by (simp add: JSON_parse_def eval_nat_numeral skip_ws_def is_json_ws_def)
  show ?thesis
    using getStoredTokens_corrupt_entry_is_null [OF a b, of 1700000000000] a b by auto
qed

lemma store_then_load_expired:
  assumes "\<not> localStorage_full w" and "\<not> isTokenValid now (Some t)"
  shows "getStoredTokens now (storeTokens (tokens_object t) w) = (Modelled JNull, clearTokens w)"
  using assms
  by (simp add: getStoredTokens_def storeTokens_def JSON_roundtrip_tokens
      stringified_tokens_nonempty as_OAuthTokens_tokens_object clearTokens_def)

lemma store_then_load_valid:
  assumes "\<not> localStorage_full w" and "isTokenValid now (Some t)"
  shows "getStoredTokens now (storeTokens (tokens_object t) w)
         = (Modelled (tokens_object t), storeTokens (tokens_object t) w)"
  using assms
  by (simp add: getStoredTokens_def storeTokens_def JSON_roundtrip_tokens
      stringified_tokens_nonempty as_OAuthTokens_tokens_object)

text \<open>
  C9, as stated, fails: \<open>getStoredTokens\<close> validates what it loads. A credential that
  has expired (or is within five minutes of expiring) is stored by \<open>storeTokens\<close>, but
  the load that follows returns \<open>null\<close> and removes it from the storage.
\<close>

theorem roundtrip_expired_counterexample:
  "fst (getStoredTokens 1700000000000 (storeTokens (tokens_object stale_tokens) world0))
     = Modelled JNull \<and>
   localStorage
     (snd (getStoredTokens 1700000000000 (storeTokens (tokens_object stale_tokens) world0)))
     ''tiktok_tokens'' = None"
proof -
  have "\<not> localStorage_full world0" by (simp add: world0_def)
  moreover have "\<not> isTokenValid 1700000000000 (Some stale_tokens)"
    by (simp add: isTokenValid_def stale_tokens_def)
  ultimately show ?thesis
    using store_then_load_expired [of world0 1700000000000 stale_tokens]
    by (simp add: clearTokens_def world0_def)
qed

text \<open>
  C9, amended. When the write succeeds and the credential is valid at the time of
  the load, \<open>storeTokens\<close> followed by \<open>getStoredTokens\<close> returns the credential, equal in
  all fields, and leaves it stored; when the credential is not valid at that time,
  the load returns \<open>null\<close> and removes the entry.
\<close>

theorem store_then_load_roundtrip:
  assumes "\<not> localStorage_full w"
  shows "(isTokenValid now (Some t) \<longrightarrow>
            getStoredTokens now (storeTokens (tokens_object t) w)
              = (Modelled (tokens_object t), storeTokens (tokens_object t) w) \<and>
            as_OAuthTokens (tokens_object t) = Decoded (Some t)) \<and>
         (\<not> isTokenValid now (Some t) \<longrightarrow>
            getStoredTokens now (storeTokens (tokens_object t) w)
              = (Modelled JNull, clearTokens w))"
  using store_then_load_valid [OF assms] store_then_load_expired [OF assms]
  by (simp add: as_OAuthTokens_tokens_object)

theorem store_then_load_roundtrip_witness:
  "\<not> localStorage_full world0 \<and>
   isTokenValid 1700000000000 (Some fresh_tokens) \<and>
   fst (getStoredTokens 1700000000000 (storeTokens (tokens_object fresh_tokens) world0))
     = Modelled (JObj PlainObject
         [(''accessToken'', JStr ''tok''), (''expires_in'', JNum 86400),
          (''timestamp'', JNum 1699996400000), (''advertiser_id'', JStr ''ADV_1234567890'')]) \<and>
   as_OAuthTokens (tokens_object fresh_tokens) = Decoded (Some fresh_tokens) \<and>
   \<not> isTokenValid 1700000000000 (Some stale_tokens) \<and>
   fst (getStoredTokens 1700000000000 (storeTokens (tokens_object stale_tokens) world0))
     = Modelled JNull"
proof -
  have w: "\<not> localStorage_full world0" by (simp add: world0_def)
  have v: "isTokenValid 1700000000000 (Some fresh_tokens)"
    by (simp add: isTokenValid_def fresh_tokens_def)
  have x: "\<not> isTokenValid 1700000000000 (Some stale_tokens)"
    by (simp add: isTokenValid_def stale_tokens_def)
  have o: "tokens_object fresh_tokens = JObj PlainObject
         [(''accessToken'', JStr ''tok''), (''expires_in'', JNum 86400),
          (''timestamp'', JNum 1699996400000), (''advertiser_id'', JStr ''ADV_1234567890'')]"
    by (simp add: tokens_object_def fresh_tokens_def)
  show ?thesis
    using w v x
      store_then_load_roundtrip [OF w, of 1700000000000 fresh_tokens]
      store_then_load_roundtrip [OF w, of 1700000000000 stale_tokens]
    by (simp add: o)
qed

end
